theory Spec2Isabelle
  imports Complex_Main
begin

section \<open>Equally sloped tomography: the notebook \<open>FBP-EST\<close>\<close>

text \<open>
  The notebook works on numpy arrays of floating-point numbers. The embedding takes the
  samples as real numbers: a 1D array is a \<open>real list\<close>, a 2D array is the list of its rows.
  \<open>np.inf\<close>, the start value of \<open>previous_error\<close>, is a constructor of its own. Exceptions
  of Python and numpy are values of \<open>error\<close>. A float division by zero, which numpy answers
  with a warning and \<open>inf\<close> or \<open>nan\<close>, has no real number as its result; the model stops
  there with \<open>DivisionByZero\<close>. Two further embeddings of \<open>EST_reco\<close> follow the first: one on a
  store of arrays, for the in-place statements, and one on samples with NaN and infinities,
  for the properties that these special values decide.
\<close>

subsection \<open>Arrays\<close>

type_synonym vector = "real list"
type_synonym matrix = "real list list"

datatype error = IndexError | ValueError | DivisionByZero

text \<open>\<open>a.shape\<close> of a 2D array \<open>a\<close> is \<open>(length a, ncols a)\<close>. An array without rows is kept
  as \<open>[]\<close>, its column count read as 0.\<close>

definition ncols :: "matrix \<Rightarrow> nat" where
  "ncols m = (case m of [] \<Rightarrow> 0 | r # _ \<Rightarrow> length r)"

subsection \<open>\<open>EST_Angles\<close>\<close>

text \<open>\<open>np.linspace(start, stop, num)\<close> with the default \<open>endpoint=True\<close>: a negative \<open>num\<close>
  raises ValueError; otherwise \<open>num\<close> samples \<open>start + k * step\<close> with
  \<open>step = (stop - start) / (num - 1)\<close>, and the single sample \<open>start\<close> when \<open>num = 1\<close>.\<close>

definition np_linspace :: "real \<Rightarrow> real \<Rightarrow> int \<Rightarrow> error + vector" where
  "np_linspace start stop num =
     (if num < 0 then Inl ValueError
      else let d = num - 1 in
        if 0 < d
        then Inr (map (\<lambda>k. start + real k * ((stop - start) / real_of_int d)) [0..<nat num])
        else Inr (map (\<lambda>k. start + real k * (stop - start)) [0..<nat num]))"

text \<open>\<open>return np.arcsin(np.linspace(-1, 1, num_projections)) * 180 / np.pi\<close>\<close>

definition EST_Angles :: "int \<Rightarrow> error + vector" where
  "EST_Angles num_projections =
     (case np_linspace (- 1) 1 num_projections of
        Inl e \<Rightarrow> Inl e
      | Inr xs \<Rightarrow> Inr (map (\<lambda>x. arcsin x * 180 / pi) xs))"

subsection \<open>numpy operations used by \<open>EST_reco\<close>\<close>

text \<open>\<open>np.rot90(m, -1)\<close>: one quarter turn clockwise, \<open>flip(transpose(m), axis=1)\<close>.\<close>

definition np_rot90_neg :: "matrix \<Rightarrow> matrix" where
  "np_rot90_neg m = map rev (transpose m)"

text \<open>\<open>np.zeros((rows, cols))\<close> and \<open>np.zeros_like(a)\<close>.\<close>

definition np_zeros :: "nat \<Rightarrow> nat \<Rightarrow> matrix" where
  "np_zeros rows cols = replicate rows (replicate cols 0)"

definition np_zeros_like :: "matrix \<Rightarrow> matrix" where
  "np_zeros_like a = map (map (\<lambda>_. 0)) a"

text \<open>\<open>np.sum(a, axis=0)\<close>: the sum of the rows, one entry per column.\<close>

definition np_sum_axis0 :: "matrix \<Rightarrow> vector" where
  "np_sum_axis0 a = foldl (\<lambda>acc row. map2 (+) acc row) (replicate (ncols a) 0) a"

text \<open>Element-wise \<open>a - b\<close>, \<open>a + b\<close>, \<open>c * a\<close> and \<open>np.maximum(a, 0)\<close> on arrays of one
  shape.\<close>

definition np_sub :: "matrix \<Rightarrow> matrix \<Rightarrow> matrix" where
  "np_sub a b = map2 (map2 (-)) a b"

definition np_add :: "matrix \<Rightarrow> matrix \<Rightarrow> matrix" where
  "np_add a b = map2 (map2 (+)) a b"

definition np_scale :: "real \<Rightarrow> matrix \<Rightarrow> matrix" where
  "np_scale c a = map (map (\<lambda>x. c * x)) a"

definition np_maximum0 :: "matrix \<Rightarrow> matrix" where
  "np_maximum0 a = map (map (\<lambda>x. max x 0)) a"

text \<open>\<open>np.max(np.abs(a))\<close>: ValueError on an array without elements.\<close>

definition np_max_abs :: "matrix \<Rightarrow> error + real" where
  "np_max_abs a =
     (let xs = concat a in
      if xs = [] then Inl ValueError else Inr (Max (set (map abs xs))))"

text \<open>\<open>a / d\<close> for a scalar \<open>d\<close>. The division by zero is kept apart (see the head of the
  file).\<close>

definition np_div_scalar :: "matrix \<Rightarrow> real \<Rightarrow> error + matrix" where
  "np_div_scalar a d =
     (if d = 0 then Inl DivisionByZero else Inr (map (map (\<lambda>x. x / d)) a))"

text \<open>\<open>a[:, :num_detectors] = v.reshape(-1, num_detectors)\<close> for a 1D \<open>v\<close> of
  \<open>num_detectors\<close> entries. The right-hand side has shape \<open>(1, num_detectors)\<close>; the left-hand
  side has \<open>min (ncols a) num_detectors\<close> columns. numpy broadcasts when the two widths agree
  or the right-hand width is 1, and raises ValueError otherwise. (\<open>reshape(-1, 0)\<close> of an
  empty array raises ValueError as well.)\<close>

definition assign_leading_columns :: "matrix \<Rightarrow> nat \<Rightarrow> vector \<Rightarrow> error + matrix" where
  "assign_leading_columns a num_detectors v =
     (if num_detectors = 0 then Inl ValueError
      else if num_detectors \<le> ncols a \<or> num_detectors = 1
      then Inr (map (\<lambda>row. take (min (length row) num_detectors) v @ drop num_detectors row) a)
      else Inl ValueError)"

subsection \<open>\<open>EST_reco\<close>\<close>

text \<open>
  Two library functions are parameters of the model:
  \<^item> \<open>ndrotate a angle\<close> is \<open>scipy.ndimage.rotate(a, angle, reshape=False, order=1)\<close>, which
    returns a new array of the shape of \<open>a\<close>;
  \<^item> \<open>iradon s theta\<close> is \<open>skimage.transform.iradon(s, theta=theta, circle=True)\<close>, which
    returns a new image or raises.
\<close>

type_synonym rotate_fn = "matrix \<Rightarrow> real \<Rightarrow> matrix"
type_synonym iradon_fn = "matrix \<Rightarrow> vector \<Rightarrow> error + matrix"

text \<open>\<open>previous_error\<close> starts as \<open>np.inf\<close>. \<open>np.abs(previous_error - max_error)\<close> is
  \<open>inf\<close> then, and \<open>inf < tolerance\<close> is false.\<close>

datatype ext_real = Finite real | Infinity

fun error_change :: "ext_real \<Rightarrow> real \<Rightarrow> ext_real" where
  "error_change Infinity max_error = Infinity"
| "error_change (Finite previous_error) max_error = Finite \<bar>previous_error - max_error\<bar>"

fun below :: "ext_real \<Rightarrow> real \<Rightarrow> bool" where
  "below Infinity tolerance = False"
| "below (Finite d) tolerance = (d < tolerance)"

text \<open>Lines 77--80: the projection is cut to its first \<open>num_detectors\<close> samples or padded
  with zeros at its end.\<close>

definition resize_projection :: "nat \<Rightarrow> vector \<Rightarrow> vector" where
  "resize_projection num_detectors projection =
     (if length projection > num_detectors then take num_detectors projection
      else if length projection < num_detectors
      then projection @ replicate (num_detectors - length projection) 0
      else projection)"

text \<open>Lines 73--82: the loop over \<open>enumerate(theta)\<close> that fills \<open>projections\<close> row by row.
  \<open>projections[i, :] = projection\<close> raises IndexError when \<open>projections\<close> has no row \<open>i\<close>.\<close>

fun forward_rows ::
  "rotate_fn \<Rightarrow> matrix \<Rightarrow> nat \<Rightarrow> (nat \<times> real) list \<Rightarrow> matrix \<Rightarrow> error + matrix" where
  "forward_rows ndrotate estimated_image num_detectors [] projections = Inr projections"
| "forward_rows ndrotate estimated_image num_detectors ((i, angle) # rest) projections =
     (let rotated_image = ndrotate estimated_image angle;
          projection = resize_projection num_detectors (np_sum_axis0 rotated_image)
      in if i < length projections
         then forward_rows ndrotate estimated_image num_detectors rest
                (projections[i := projection])
         else Inl IndexError)"

definition forward_projection ::
  "rotate_fn \<Rightarrow> matrix \<Rightarrow> nat \<Rightarrow> nat \<Rightarrow> vector \<Rightarrow> error + matrix" where
  "forward_projection ndrotate estimated_image num_projections num_detectors theta =
     forward_rows ndrotate estimated_image num_detectors (enumerate 0 theta)
       (np_zeros num_projections num_detectors)"

text \<open>Lines 98--103: the loop that adds the rotated, expanded error rows.
  \<open>error[i, :]\<close> raises IndexError when \<open>error\<close> has no row \<open>i\<close>.\<close>

fun backproject_rows ::
  "rotate_fn \<Rightarrow> matrix \<Rightarrow> nat \<Rightarrow> matrix \<Rightarrow> (nat \<times> real) list \<Rightarrow> matrix \<Rightarrow> error + matrix"
  where
  "backproject_rows ndrotate estimated_image num_detectors err [] backprojected_error =
     Inr backprojected_error"
| "backproject_rows ndrotate estimated_image num_detectors err ((i, angle) # rest)
     backprojected_error =
     (if i < length err
      then case assign_leading_columns (np_zeros_like estimated_image) num_detectors (err ! i) of
             Inl e \<Rightarrow> Inl e
           | Inr expanded_error \<Rightarrow>
               let rotated_error = ndrotate expanded_error (- angle)
               in backproject_rows ndrotate estimated_image num_detectors err rest
                    (np_add backprojected_error rotated_error)
      else Inl IndexError)"

definition backprojection ::
  "rotate_fn \<Rightarrow> matrix \<Rightarrow> nat \<Rightarrow> matrix \<Rightarrow> vector \<Rightarrow> error + matrix" where
  "backprojection ndrotate estimated_image num_detectors err theta =
     backproject_rows ndrotate estimated_image num_detectors err (enumerate 0 theta)
       (np_zeros_like estimated_image)"

text \<open>Lines 106--107: the guarded normalisation.\<close>

definition normalize :: "matrix \<Rightarrow> error + matrix" where
  "normalize backprojected_error =
     (case np_max_abs backprojected_error of
        Inl e \<Rightarrow> Inl e
      | Inr m \<Rightarrow> if m \<noteq> 0 then np_div_scalar backprojected_error m
                 else Inr backprojected_error)"

text \<open>Lines 110--111: the gradient step and the non-negativity constraint.\<close>

definition update :: "matrix \<Rightarrow> real \<Rightarrow> nat \<Rightarrow> matrix \<Rightarrow> error + matrix" where
  "update estimated_image learning_rate num_projections backprojected_error =
     (case np_div_scalar backprojected_error (real num_projections) of
        Inl e \<Rightarrow> Inl e
      | Inr g \<Rightarrow> Inr (np_maximum0 (np_add estimated_image (np_scale learning_rate g))))"

record est_state =
  estimated_image :: matrix
  previous_error :: ext_real

datatype step = Break | Next est_state

text \<open>Lines 70--111: the body of the loop.\<close>

definition EST_iteration ::
  "rotate_fn \<Rightarrow> matrix \<Rightarrow> vector \<Rightarrow> real \<Rightarrow> real \<Rightarrow> est_state \<Rightarrow> error + step" where
  "EST_iteration ndrotate sinogram theta tolerance learning_rate st =
     (let num_projections = length sinogram; num_detectors = ncols sinogram in
      case forward_projection ndrotate (estimated_image st) num_projections num_detectors theta of
        Inl e \<Rightarrow> Inl e
      | Inr projections \<Rightarrow>
      let err = np_sub sinogram projections in
      case np_max_abs err of
        Inl e \<Rightarrow> Inl e
      | Inr max_error \<Rightarrow>
      if below (error_change (previous_error st) max_error) tolerance then Inr Break
      else
      case backprojection ndrotate (estimated_image st) num_detectors err theta of
        Inl e \<Rightarrow> Inl e
      | Inr backprojected_error \<Rightarrow>
      case normalize backprojected_error of
        Inl e \<Rightarrow> Inl e
      | Inr backprojected_error \<Rightarrow>
      case update (estimated_image st) learning_rate num_projections backprojected_error of
        Inl e \<Rightarrow> Inl e
      | Inr new_image \<Rightarrow>
          Inr (Next \<lparr>estimated_image = new_image, previous_error = Finite max_error\<rparr>))"

text \<open>The loop over \<open>range(num_iterations)\<close>. The exit records what the notebook prints:
  \<open>Converged k\<close> for "Convergence reached at iteration k", \<open>Exhausted\<close> when the range
  ran out.\<close>

datatype exit = Converged nat | Exhausted

fun EST_loop ::
  "rotate_fn \<Rightarrow> matrix \<Rightarrow> vector \<Rightarrow> real \<Rightarrow> real \<Rightarrow> nat list \<Rightarrow> est_state \<Rightarrow>
   error + matrix \<times> exit" where
  "EST_loop ndrotate sinogram theta tolerance learning_rate [] st =
     Inr (estimated_image st, Exhausted)"
| "EST_loop ndrotate sinogram theta tolerance learning_rate (iteration # rest) st =
     (case EST_iteration ndrotate sinogram theta tolerance learning_rate st of
        Inl e \<Rightarrow> Inl e
      | Inr Break \<Rightarrow> Inr (estimated_image st, Converged (iteration + 1))
      | Inr (Next st') \<Rightarrow> EST_loop ndrotate sinogram theta tolerance learning_rate rest st')"

text \<open>Lines 61--113. \<open>range(num_iterations)\<close> is empty for \<open>num_iterations \<le> 0\<close>.\<close>

definition EST_run ::
  "rotate_fn \<Rightarrow> iradon_fn \<Rightarrow> matrix \<Rightarrow> vector \<Rightarrow> int \<Rightarrow> real \<Rightarrow> real \<Rightarrow>
   error + matrix \<times> exit" where
  "EST_run ndrotate iradon sinogram theta num_iterations tolerance learning_rate =
     (case iradon (np_rot90_neg sinogram) theta of
        Inl e \<Rightarrow> Inl e
      | Inr initial_guess \<Rightarrow>
          EST_loop ndrotate sinogram theta tolerance learning_rate [0..<nat num_iterations]
            \<lparr>estimated_image = initial_guess, previous_error = Infinity\<rparr>)"

definition EST_reco ::
  "rotate_fn \<Rightarrow> iradon_fn \<Rightarrow> matrix \<Rightarrow> vector \<Rightarrow> int \<Rightarrow> real \<Rightarrow> real \<Rightarrow> error + matrix" where
  "EST_reco ndrotate iradon sinogram theta num_iterations tolerance learning_rate =
     (case EST_run ndrotate iradon sinogram theta num_iterations tolerance learning_rate of
        Inl e \<Rightarrow> Inl e
      | Inr (reconstructed_image, _) \<Rightarrow> Inr reconstructed_image)"

subsection \<open>\<open>EST_reco\<close> on a store of arrays\<close>

text \<open>
  A second embedding of \<open>EST_reco\<close> keeps the arrays in a store, to follow which array
  every in-place statement writes. A reference is an index into the store; \<open>alloc\<close> appends
  a new array, as every numpy call that creates an array does. An in-place statement
  (\<open>a[i, :] = \<dots>\<close>, \<open>a[:, :n] = \<dots>\<close>, \<open>a += \<dots>\<close>, \<open>a /= \<dots>\<close>) replaces the content at the
  reference of \<open>a\<close>. The arguments \<open>sinogram\<close> and \<open>theta\<close> are references into the store of
  the caller. Arrays that are only read after their creation (\<open>initial_guess\<close>,
  \<open>rotated_image\<close>, \<open>projection\<close>, \<open>error\<close>, \<open>rotated_error\<close> and the unnamed operands) are kept
  as values; the two library functions read their arguments and return new arrays.
  \<open>image_ref\<close> is the reference that the name \<open>estimated_image\<close> is bound to.
\<close>

type_synonym ref = nat

datatype ndarray = Array1 vector | Array2 matrix

type_synonym store = "ndarray list"

definition alloc :: "store \<Rightarrow> ndarray \<Rightarrow> store \<times> ref" where
  "alloc h a = (h @ [a], length h)"

definition matrix_at :: "store \<Rightarrow> ref \<Rightarrow> matrix" where
  "matrix_at h r = (case h ! r of Array2 m \<Rightarrow> m | Array1 v \<Rightarrow> [])"

definition vector_at :: "store \<Rightarrow> ref \<Rightarrow> vector" where
  "vector_at h r = (case h ! r of Array1 v \<Rightarrow> v | Array2 m \<Rightarrow> [])"

text \<open>Lines 73--82; \<open>projections[i, :] = projection\<close> writes row \<open>i\<close> of the array at
  \<open>projections\<close>.\<close>

fun forward_rows_store ::
  "rotate_fn \<Rightarrow> ref \<Rightarrow> nat \<Rightarrow> (nat \<times> real) list \<Rightarrow> ref \<Rightarrow> store \<Rightarrow> error + store" where
  "forward_rows_store ndrotate image_ref num_detectors [] projections h = Inr h"
| "forward_rows_store ndrotate image_ref num_detectors ((i, angle) # rest) projections h =
     (let rotated_image = ndrotate (matrix_at h image_ref) angle;
          projection = resize_projection num_detectors (np_sum_axis0 rotated_image)
      in if i < length (matrix_at h projections)
         then forward_rows_store ndrotate image_ref num_detectors rest projections
                (h[projections := Array2 ((matrix_at h projections)[i := projection])])
         else Inl IndexError)"

text \<open>Lines 99--103; \<open>expanded_error\<close> is a new array in every round, written by line 101;
  line 103 adds in place to the array at \<open>backprojected_error\<close>.\<close>

fun backproject_rows_store ::
  "rotate_fn \<Rightarrow> ref \<Rightarrow> nat \<Rightarrow> matrix \<Rightarrow> (nat \<times> real) list \<Rightarrow> ref \<Rightarrow> store \<Rightarrow>
   error + store" where
  "backproject_rows_store ndrotate image_ref num_detectors err [] backprojected_error h =
     Inr h"
| "backproject_rows_store ndrotate image_ref num_detectors err ((i, angle) # rest)
     backprojected_error h =
     (let (h, expanded_error) = alloc h (Array2 (np_zeros_like (matrix_at h image_ref)))
      in if i < length err
         then case assign_leading_columns (matrix_at h expanded_error) num_detectors (err ! i) of
                Inl e \<Rightarrow> Inl e
              | Inr assigned \<Rightarrow>
                  let h = h[expanded_error := Array2 assigned];
                      rotated_error = ndrotate (matrix_at h expanded_error) (- angle);
                      h = h[backprojected_error :=
                              Array2 (np_add (matrix_at h backprojected_error) rotated_error)]
                  in backproject_rows_store ndrotate image_ref num_detectors err rest
                       backprojected_error h
         else Inl IndexError)"

text \<open>Lines 106--107; \<open>backprojected_error /= \<dots>\<close> divides in place.\<close>

definition normalize_store :: "ref \<Rightarrow> store \<Rightarrow> error + store" where
  "normalize_store backprojected_error h =
     (case np_max_abs (matrix_at h backprojected_error) of
        Inl e \<Rightarrow> Inl e
      | Inr m \<Rightarrow>
          if m \<noteq> 0
          then case np_div_scalar (matrix_at h backprojected_error) m of
                 Inl e \<Rightarrow> Inl e
               | Inr divided \<Rightarrow> Inr (h[backprojected_error := Array2 divided])
          else Inr h)"

text \<open>Lines 110--111; \<open>estimated_image += \<dots>\<close> adds in place, and
  \<open>estimated_image = np.maximum(estimated_image, 0)\<close> binds the name to a new array.\<close>

definition update_store :: "ref \<Rightarrow> real \<Rightarrow> nat \<Rightarrow> ref \<Rightarrow> store \<Rightarrow> error + store \<times> ref" where
  "update_store image_ref learning_rate num_projections backprojected_error h =
     (case np_div_scalar (matrix_at h backprojected_error) (real num_projections) of
        Inl e \<Rightarrow> Inl e
      | Inr g \<Rightarrow>
          let h = h[image_ref :=
                      Array2 (np_add (matrix_at h image_ref) (np_scale learning_rate g))]
          in Inr (alloc h (Array2 (np_maximum0 (matrix_at h image_ref)))))"

datatype store_step = StoreBreak store | StoreNext store ref ext_real

text \<open>Lines 70--111 on the store.\<close>

definition EST_iteration_store ::
  "rotate_fn \<Rightarrow> ref \<Rightarrow> ref \<Rightarrow> real \<Rightarrow> real \<Rightarrow> store \<Rightarrow> ref \<Rightarrow> ext_real \<Rightarrow>
   error + store_step" where
  "EST_iteration_store ndrotate sinogram theta tolerance learning_rate h image_ref
     previous_err =
     (let num_projections = length (matrix_at h sinogram);
          num_detectors = ncols (matrix_at h sinogram);
          (h, projections) = alloc h (Array2 (np_zeros num_projections num_detectors))
      in
      case forward_rows_store ndrotate image_ref num_detectors
             (enumerate 0 (vector_at h theta)) projections h of
        Inl e \<Rightarrow> Inl e
      | Inr h \<Rightarrow>
      let err = np_sub (matrix_at h sinogram) (matrix_at h projections) in
      case np_max_abs err of
        Inl e \<Rightarrow> Inl e
      | Inr max_error \<Rightarrow>
      if below (error_change previous_err max_error) tolerance then Inr (StoreBreak h)
      else
      let (h, backprojected_error) =
            alloc h (Array2 (np_zeros_like (matrix_at h image_ref))) in
      case backproject_rows_store ndrotate image_ref num_detectors err
             (enumerate 0 (vector_at h theta)) backprojected_error h of
        Inl e \<Rightarrow> Inl e
      | Inr h \<Rightarrow>
      case normalize_store backprojected_error h of
        Inl e \<Rightarrow> Inl e
      | Inr h \<Rightarrow>
      case update_store image_ref learning_rate num_projections backprojected_error h of
        Inl e \<Rightarrow> Inl e
      | Inr (h, image_ref) \<Rightarrow> Inr (StoreNext h image_ref (Finite max_error)))"

fun EST_loop_store ::
  "rotate_fn \<Rightarrow> ref \<Rightarrow> ref \<Rightarrow> real \<Rightarrow> real \<Rightarrow> nat list \<Rightarrow> store \<Rightarrow> ref \<Rightarrow> ext_real \<Rightarrow>
   error + store \<times> ref" where
  "EST_loop_store ndrotate sinogram theta tolerance learning_rate [] h image_ref
     previous_err = Inr (h, image_ref)"
| "EST_loop_store ndrotate sinogram theta tolerance learning_rate (iteration # rest) h
     image_ref previous_err =
     (case EST_iteration_store ndrotate sinogram theta tolerance learning_rate h image_ref
             previous_err of
        Inl e \<Rightarrow> Inl e
      | Inr (StoreBreak h) \<Rightarrow> Inr (h, image_ref)
      | Inr (StoreNext h image_ref previous_err) \<Rightarrow>
          EST_loop_store ndrotate sinogram theta tolerance learning_rate rest h image_ref
            previous_err)"

text \<open>Lines 61--113 on the store: the result is the store at the return and the reference
  that is returned. \<open>initial_guess.copy()\<close> is the first array that \<open>EST_reco\<close> creates in the
  store.\<close>

definition EST_reco_store ::
  "rotate_fn \<Rightarrow> iradon_fn \<Rightarrow> store \<Rightarrow> ref \<Rightarrow> ref \<Rightarrow> int \<Rightarrow> real \<Rightarrow> real \<Rightarrow>
   error + store \<times> ref" where
  "EST_reco_store ndrotate iradon h sinogram theta num_iterations tolerance learning_rate =
     (case iradon (np_rot90_neg (matrix_at h sinogram)) (vector_at h theta) of
        Inl e \<Rightarrow> Inl e
      | Inr initial_guess \<Rightarrow>
          let (h, image_ref) = alloc h (Array2 initial_guess)
          in EST_loop_store ndrotate sinogram theta tolerance learning_rate
               [0..<nat num_iterations] h image_ref Infinity)"

subsection \<open>\<open>EST_reco\<close> on samples with NaN and infinities\<close>

text \<open>
  A third embedding of \<open>EST_reco\<close> takes the samples as floating-point values with their
  special values: a number, \<open>+inf\<close>, \<open>-inf\<close> or NaN. The operations follow IEEE 754 on the
  special values (NaN propagates through arithmetic, \<open>inf - inf\<close> and \<open>0 * inf\<close> are NaN,
  every comparison with NaN is false) and are exact on numbers; rounding and overflow of
  numbers are left out. \<open>np.maximum\<close> and \<open>np.max\<close> propagate NaN. The tolerance, the
  learning rate and \<open>previous_error\<close> are samples as well; \<open>previous_error\<close> starts as \<open>PInf\<close>.
  The division by the number 0 is kept apart as in the first embedding.
\<close>

datatype sample = Num real | PInf | NInf | NaN

type_synonym fvector = "sample list"
type_synonym fmatrix = "sample list list"

fun fneg :: "sample \<Rightarrow> sample" where
  "fneg (Num a) = Num (- a)"
| "fneg PInf = NInf"
| "fneg NInf = PInf"
| "fneg NaN = NaN"

fun fadd :: "sample \<Rightarrow> sample \<Rightarrow> sample" where
  "fadd NaN y = NaN"
| "fadd x NaN = NaN"
| "fadd PInf NInf = NaN"
| "fadd NInf PInf = NaN"
| "fadd PInf y = PInf"
| "fadd x PInf = PInf"
| "fadd NInf y = NInf"
| "fadd x NInf = NInf"
| "fadd (Num a) (Num b) = Num (a + b)"

definition fsub :: "sample \<Rightarrow> sample \<Rightarrow> sample" where
  "fsub x y = fadd x (fneg y)"

text \<open>The sign of a sample that is not NaN: -1, 0 or 1.\<close>

fun fsign :: "sample \<Rightarrow> int" where
  "fsign (Num a) = (if a < 0 then - 1 else if a = 0 then 0 else 1)"
| "fsign PInf = 1"
| "fsign NInf = - 1"
| "fsign NaN = 0"

fun fmul :: "sample \<Rightarrow> sample \<Rightarrow> sample" where
  "fmul NaN y = NaN"
| "fmul x NaN = NaN"
| "fmul (Num a) (Num b) = Num (a * b)"
| "fmul x y =
     (let s = fsign x * fsign y
      in if s = 0 then NaN else if 0 < s then PInf else NInf)"

text \<open>\<open>x / d\<close> for a divisor \<open>d\<close> that is not the number 0.\<close>

fun fdiv :: "sample \<Rightarrow> sample \<Rightarrow> sample" where
  "fdiv NaN d = NaN"
| "fdiv x NaN = NaN"
| "fdiv (Num a) (Num b) = Num (a / b)"
| "fdiv (Num a) d = Num 0"
| "fdiv x (Num b) = (if 0 < fsign x * fsign (Num b) then PInf else NInf)"
| "fdiv x d = NaN"

fun fabs :: "sample \<Rightarrow> sample" where
  "fabs (Num a) = Num \<bar>a\<bar>"
| "fabs PInf = PInf"
| "fabs NInf = PInf"
| "fabs NaN = NaN"

text \<open>\<open>x < y\<close> on floats.\<close>

fun fless :: "sample \<Rightarrow> sample \<Rightarrow> bool" where
  "fless NaN y = False"
| "fless x NaN = False"
| "fless (Num a) (Num b) = (a < b)"
| "fless PInf y = False"
| "fless x NInf = False"
| "fless x y = True"

text \<open>\<open>np.maximum(x, y)\<close> on two samples: NaN when one of them is NaN.\<close>

definition fmaximum :: "sample \<Rightarrow> sample \<Rightarrow> sample" where
  "fmaximum x y = (if x = NaN \<or> y = NaN then NaN else if fless x y then y else x)"

definition ncols_fp :: "fmatrix \<Rightarrow> nat" where
  "ncols_fp m = (case m of [] \<Rightarrow> 0 | r # _ \<Rightarrow> length r)"

definition np_rot90_neg_fp :: "fmatrix \<Rightarrow> fmatrix" where
  "np_rot90_neg_fp m = map rev (transpose m)"

definition np_zeros_fp :: "nat \<Rightarrow> nat \<Rightarrow> fmatrix" where
  "np_zeros_fp rows cols = replicate rows (replicate cols (Num 0))"

definition np_zeros_like_fp :: "fmatrix \<Rightarrow> fmatrix" where
  "np_zeros_like_fp a = map (map (\<lambda>_. Num 0)) a"

definition np_sum_axis0_fp :: "fmatrix \<Rightarrow> fvector" where
  "np_sum_axis0_fp a =
     foldl (\<lambda>acc row. map2 fadd acc row) (replicate (ncols_fp a) (Num 0)) a"

definition np_sub_fp :: "fmatrix \<Rightarrow> fmatrix \<Rightarrow> fmatrix" where
  "np_sub_fp a b = map2 (map2 fsub) a b"

definition np_add_fp :: "fmatrix \<Rightarrow> fmatrix \<Rightarrow> fmatrix" where
  "np_add_fp a b = map2 (map2 fadd) a b"

definition np_scale_fp :: "sample \<Rightarrow> fmatrix \<Rightarrow> fmatrix" where
  "np_scale_fp c a = map (map (\<lambda>x. fmul c x)) a"

definition np_maximum0_fp :: "fmatrix \<Rightarrow> fmatrix" where
  "np_maximum0_fp a = map (map (\<lambda>x. fmaximum x (Num 0))) a"

text \<open>\<open>np.max(np.abs(a))\<close>: ValueError on an array without elements, NaN when an element
  is NaN.\<close>

definition np_max_abs_fp :: "fmatrix \<Rightarrow> error + sample" where
  "np_max_abs_fp a =
     (case map fabs (concat a) of
        [] \<Rightarrow> Inl ValueError
      | x # xs \<Rightarrow> Inr (foldl fmaximum x xs))"

definition np_div_scalar_fp :: "fmatrix \<Rightarrow> sample \<Rightarrow> error + fmatrix" where
  "np_div_scalar_fp a d =
     (if d = Num 0 then Inl DivisionByZero else Inr (map (map (\<lambda>x. fdiv x d)) a))"

definition assign_leading_columns_fp :: "fmatrix \<Rightarrow> nat \<Rightarrow> fvector \<Rightarrow> error + fmatrix" where
  "assign_leading_columns_fp a num_detectors v =
     (if num_detectors = 0 then Inl ValueError
      else if num_detectors \<le> ncols_fp a \<or> num_detectors = 1
      then Inr (map (\<lambda>row. take (min (length row) num_detectors) v @ drop num_detectors row) a)
      else Inl ValueError)"

type_synonym rotate_fp = "fmatrix \<Rightarrow> sample \<Rightarrow> fmatrix"
type_synonym iradon_fp = "fmatrix \<Rightarrow> fvector \<Rightarrow> error + fmatrix"

definition resize_projection_fp :: "nat \<Rightarrow> fvector \<Rightarrow> fvector" where
  "resize_projection_fp num_detectors projection =
     (if length projection > num_detectors then take num_detectors projection
      else if length projection < num_detectors
      then projection @ replicate (num_detectors - length projection) (Num 0)
      else projection)"

fun forward_rows_fp ::
  "rotate_fp \<Rightarrow> fmatrix \<Rightarrow> nat \<Rightarrow> (nat \<times> sample) list \<Rightarrow> fmatrix \<Rightarrow> error + fmatrix" where
  "forward_rows_fp ndrotate img num_detectors [] projections = Inr projections"
| "forward_rows_fp ndrotate img num_detectors ((i, angle) # rest) projections =
     (let rotated_image = ndrotate img angle;
          projection = resize_projection_fp num_detectors (np_sum_axis0_fp rotated_image)
      in if i < length projections
         then forward_rows_fp ndrotate img num_detectors rest (projections[i := projection])
         else Inl IndexError)"

definition forward_projection_fp ::
  "rotate_fp \<Rightarrow> fmatrix \<Rightarrow> nat \<Rightarrow> nat \<Rightarrow> fvector \<Rightarrow> error + fmatrix" where
  "forward_projection_fp ndrotate img num_projections num_detectors theta =
     forward_rows_fp ndrotate img num_detectors (enumerate 0 theta)
       (np_zeros_fp num_projections num_detectors)"

fun backproject_rows_fp ::
  "rotate_fp \<Rightarrow> fmatrix \<Rightarrow> nat \<Rightarrow> fmatrix \<Rightarrow> (nat \<times> sample) list \<Rightarrow> fmatrix \<Rightarrow>
   error + fmatrix" where
  "backproject_rows_fp ndrotate img num_detectors err [] backprojected_error =
     Inr backprojected_error"
| "backproject_rows_fp ndrotate img num_detectors err ((i, angle) # rest) backprojected_error =
     (if i < length err
      then case assign_leading_columns_fp (np_zeros_like_fp img) num_detectors (err ! i) of
             Inl e \<Rightarrow> Inl e
           | Inr expanded_error \<Rightarrow>
               let rotated_error = ndrotate expanded_error (fneg angle)
               in backproject_rows_fp ndrotate img num_detectors err rest
                    (np_add_fp backprojected_error rotated_error)
      else Inl IndexError)"

definition backprojection_fp ::
  "rotate_fp \<Rightarrow> fmatrix \<Rightarrow> nat \<Rightarrow> fmatrix \<Rightarrow> fvector \<Rightarrow> error + fmatrix" where
  "backprojection_fp ndrotate img num_detectors err theta =
     backproject_rows_fp ndrotate img num_detectors err (enumerate 0 theta)
       (np_zeros_like_fp img)"

text \<open>Lines 106--107. \<open>m != 0\<close> is true for a NaN and for an infinite \<open>m\<close>.\<close>

definition normalize_fp :: "fmatrix \<Rightarrow> error + fmatrix" where
  "normalize_fp backprojected_error =
     (case np_max_abs_fp backprojected_error of
        Inl e \<Rightarrow> Inl e
      | Inr m \<Rightarrow> if m \<noteq> Num 0 then np_div_scalar_fp backprojected_error m
                 else Inr backprojected_error)"

definition update_fp :: "fmatrix \<Rightarrow> sample \<Rightarrow> nat \<Rightarrow> fmatrix \<Rightarrow> error + fmatrix" where
  "update_fp img learning_rate num_projections backprojected_error =
     (case np_div_scalar_fp backprojected_error (Num (real num_projections)) of
        Inl e \<Rightarrow> Inl e
      | Inr g \<Rightarrow> Inr (np_maximum0_fp (np_add_fp img (np_scale_fp learning_rate g))))"

record est_state_fp =
  estimated_image_fp :: fmatrix
  previous_error_fp :: sample

datatype step_fp = Break_fp | Next_fp est_state_fp

text \<open>Lines 70--111. Line 91 is \<open>np.abs(previous_error - max_error) < tolerance\<close>.\<close>

definition EST_iteration_fp ::
  "rotate_fp \<Rightarrow> fmatrix \<Rightarrow> fvector \<Rightarrow> sample \<Rightarrow> sample \<Rightarrow> est_state_fp \<Rightarrow> error + step_fp"
  where
  "EST_iteration_fp ndrotate sinogram theta tolerance learning_rate st =
     (let num_projections = length sinogram; num_detectors = ncols_fp sinogram in
      case forward_projection_fp ndrotate (estimated_image_fp st) num_projections num_detectors
             theta of
        Inl e \<Rightarrow> Inl e
      | Inr projections \<Rightarrow>
      let err = np_sub_fp sinogram projections in
      case np_max_abs_fp err of
        Inl e \<Rightarrow> Inl e
      | Inr max_error \<Rightarrow>
      if fless (fabs (fsub (previous_error_fp st) max_error)) tolerance then Inr Break_fp
      else
      case backprojection_fp ndrotate (estimated_image_fp st) num_detectors err theta of
        Inl e \<Rightarrow> Inl e
      | Inr backprojected_error \<Rightarrow>
      case normalize_fp backprojected_error of
        Inl e \<Rightarrow> Inl e
      | Inr backprojected_error \<Rightarrow>
      case update_fp (estimated_image_fp st) learning_rate num_projections backprojected_error of
        Inl e \<Rightarrow> Inl e
      | Inr new_image \<Rightarrow>
          Inr (Next_fp \<lparr>estimated_image_fp = new_image, previous_error_fp = max_error\<rparr>))"

fun EST_loop_fp ::
  "rotate_fp \<Rightarrow> fmatrix \<Rightarrow> fvector \<Rightarrow> sample \<Rightarrow> sample \<Rightarrow> nat list \<Rightarrow> est_state_fp \<Rightarrow>
   error + fmatrix \<times> exit" where
  "EST_loop_fp ndrotate sinogram theta tolerance learning_rate [] st =
     Inr (estimated_image_fp st, Exhausted)"
| "EST_loop_fp ndrotate sinogram theta tolerance learning_rate (iteration # rest) st =
     (case EST_iteration_fp ndrotate sinogram theta tolerance learning_rate st of
        Inl e \<Rightarrow> Inl e
      | Inr Break_fp \<Rightarrow> Inr (estimated_image_fp st, Converged (iteration + 1))
      | Inr (Next_fp st') \<Rightarrow>
          EST_loop_fp ndrotate sinogram theta tolerance learning_rate rest st')"

definition EST_run_fp ::
  "rotate_fp \<Rightarrow> iradon_fp \<Rightarrow> fmatrix \<Rightarrow> fvector \<Rightarrow> int \<Rightarrow> sample \<Rightarrow> sample \<Rightarrow>
   error + fmatrix \<times> exit" where
  "EST_run_fp ndrotate iradon sinogram theta num_iterations tolerance learning_rate =
     (case iradon (np_rot90_neg_fp sinogram) theta of
        Inl e \<Rightarrow> Inl e
      | Inr initial_guess \<Rightarrow>
          EST_loop_fp ndrotate sinogram theta tolerance learning_rate [0..<nat num_iterations]
            \<lparr>estimated_image_fp = initial_guess, previous_error_fp = PInf\<rparr>)"

definition EST_reco_fp ::
  "rotate_fp \<Rightarrow> iradon_fp \<Rightarrow> fmatrix \<Rightarrow> fvector \<Rightarrow> int \<Rightarrow> sample \<Rightarrow> sample \<Rightarrow>
   error + fmatrix" where
  "EST_reco_fp ndrotate iradon sinogram theta num_iterations tolerance learning_rate =
     (case EST_run_fp ndrotate iradon sinogram theta num_iterations tolerance learning_rate of
        Inl e \<Rightarrow> Inl e
      | Inr (reconstructed_image, _) \<Rightarrow> Inr reconstructed_image)"

subsection \<open>Predicates used in the statements\<close>


text \<open>The array has the shape \<open>(rows, cols)\<close>.\<close>

definition is_matrix :: "nat \<Rightarrow> nat \<Rightarrow> matrix \<Rightarrow> bool" where
  "is_matrix rows cols a \<longleftrightarrow>
     length a = rows \<and> ncols a = cols \<and> list_all (\<lambda>row. length row = cols) a"

text \<open>The store \<open>h'\<close> has every array of \<open>h\<close>, and the arrays at the references below
  \<open>n\<close> have the content they have in \<open>h\<close>.\<close>

definition unchanged_below :: "nat \<Rightarrow> store \<Rightarrow> store \<Rightarrow> bool" where
  "unchanged_below n h h' \<longleftrightarrow> length h \<le> length h' \<and> take n h' = take n h"

text \<open>The sample is a number \<open>\<ge> 0\<close> or \<open>+inf\<close>; every element of the array is such a
  sample; every element of the array is such a sample or NaN.\<close>

fun sample_non_negative :: "sample \<Rightarrow> bool" where
  "sample_non_negative (Num a) = (0 \<le> a)"
| "sample_non_negative PInf = True"
| "sample_non_negative NInf = False"
| "sample_non_negative NaN = False"

definition non_negative_fp :: "fmatrix \<Rightarrow> bool" where
  "non_negative_fp a = list_all (list_all sample_non_negative) a"

definition non_negative_or_nan :: "fmatrix \<Rightarrow> bool" where
  "non_negative_or_nan a = list_all (list_all (\<lambda>x. x = NaN \<or> sample_non_negative x)) a"

subsection \<open>Stand-ins for the library functions at concrete inputs\<close>

text \<open>\<open>scipy.ndimage.rotate\<close> with \<open>reshape=False\<close> returns the samples of its argument when
  the angle is 0, and for every angle when the image is 1 x 1 (the centre of rotation is the
  only pixel). \<open>initializer_returning img\<close> stands for an initializer whose result is \<open>img\<close>;
  \<open>iradon\<close> maps a sinogram of zeros to an image of zeros.\<close>

definition no_rotation :: rotate_fn where
  "no_rotation a angle = a"

definition initializer_returning :: "matrix \<Rightarrow> iradon_fn" where
  "initializer_returning img s theta = Inr img"

text \<open>The same stand-ins on samples. For a sinogram of NaN the filtered back projection of
  \<open>iradon\<close> is an image of NaN.\<close>

definition no_rotation_fp :: rotate_fp where
  "no_rotation_fp a angle = a"

definition initializer_returning_fp :: "fmatrix \<Rightarrow> iradon_fp" where
  "initializer_returning_fp img s theta = Inr img"

section \<open>Properties\<close>

subsection \<open>The angle sampler\<close>

lemma EST_Angles_value:
  assumes "2 \<le> n"
  shows "EST_Angles n =
     Inr (map (\<lambda>k. arcsin (- 1 + real k * (2 / real_of_int (n - 1))) * 180 / pi) [0..<nat n])"
  using assms by (simp add: EST_Angles_def np_linspace_def Let_def comp_def)

lemma sample_in_range:
  assumes "2 \<le> n" and "k < nat n"
  shows "- 1 \<le> - 1 + real k * (2 / real_of_int (n - 1))"
    and "- 1 + real k * (2 / real_of_int (n - 1)) \<le> 1"
proof -
  from assms have pos: "0 < real_of_int (n - 1)" by simp
  show "- 1 \<le> - 1 + real k * (2 / real_of_int (n - 1))"
    using pos by simp
  from assms have "real k \<le> real_of_int (n - 1)" by linarith
  then have "real k * 2 \<le> 2 * real_of_int (n - 1)" by simp
  then have "real k * 2 / real_of_int (n - 1) \<le> 2"
    using pos by (simp add: pos_divide_le_eq)
  then show "- 1 + real k * (2 / real_of_int (n - 1)) \<le> 1" by simp
qed

text \<open>
  C5. For every count \<open>n \<ge> 2\<close>, \<open>EST_Angles n\<close> returns exactly \<open>n\<close> angles; the \<open>k\<close>-th
  angle is \<open>arcsin (-1 + 2 k / (n - 1))\<close> in degrees, and the sine of the \<open>k\<close>-th angle is
  \<open>-1 + 2 k / (n - 1)\<close>: the sines are equally spaced over \<open>[-1, 1]\<close>.
\<close>

theorem EST_Angles_equally_sloped:
  assumes "2 \<le> n"
  shows "\<exists>theta. EST_Angles n = Inr theta \<and> length theta = nat n \<and>
           (\<forall>k < nat n.
              theta ! k = arcsin (- 1 + 2 * real k / real_of_int (n - 1)) * 180 / pi \<and>
              sin (theta ! k * pi / 180) = - 1 + 2 * real k / real_of_int (n - 1))"
proof -
  let ?theta = "map (\<lambda>k. arcsin (- 1 + real k * (2 / real_of_int (n - 1))) * 180 / pi) [0..<nat n]"
  have "EST_Angles n = Inr ?theta" using assms by (rule EST_Angles_value)
  moreover have "length ?theta = nat n" by simp
  moreover have "\<forall>k < nat n.
      ?theta ! k = arcsin (- 1 + 2 * real k / real_of_int (n - 1)) * 180 / pi \<and>
      sin (?theta ! k * pi / 180) = - 1 + 2 * real k / real_of_int (n - 1)"
  proof (intro allI impI)
    fix k assume k: "k < nat n"
    have "sin (arcsin (- 1 + real k * (2 / real_of_int (n - 1)))) =
            - 1 + real k * (2 / real_of_int (n - 1))"
      using sample_in_range [OF assms k] by (rule sin_arcsin)
    with k show "?theta ! k = arcsin (- 1 + 2 * real k / real_of_int (n - 1)) * 180 / pi \<and>
      sin (?theta ! k * pi / 180) = - 1 + 2 * real k / real_of_int (n - 1)"
      by (simp add: mult.commute)
  qed
  ultimately show ?thesis by blast
qed

theorem EST_Angles_equally_sloped_witness:
  "(2::int) \<le> 3 \<and>
   (\<exists>theta. EST_Angles 3 = Inr theta \<and> length theta = 3 \<and>
      theta ! 0 = - 90 \<and> theta ! 1 = 0 \<and> theta ! 2 = 90 \<and>
      sin (theta ! 2 * pi / 180) = 1)"
proof -
  have h: "(2::int) \<le> 3" by simp
  from EST_Angles_equally_sloped [OF h]
  obtain theta where th: "EST_Angles 3 = Inr theta" "length theta = 3"
    and el: "\<forall>k < 3. theta ! k = arcsin (- 1 + 2 * real k / 2) * 180 / pi \<and>
               sin (theta ! k * pi / 180) = - 1 + 2 * real k / 2"
    by auto
  from el have "theta ! 0 = - 90" "theta ! 1 = 0" "theta ! 2 = 90"
    "sin (theta ! 2 * pi / 180) = 1"
    by simp_all
  with th h show ?thesis by blast
qed

text \<open>
  C8. For every \<open>n \<ge> 2\<close> the angle set of \<open>EST_Angles n\<close> is symmetric about 0: the \<open>k\<close>-th
  angle is the negation of the \<open>(n - 1 - k)\<close>-th angle, for every \<open>k\<close> in \<open>0..n-1\<close>.
\<close>

theorem EST_Angles_symmetric:
  assumes "2 \<le> n" and "EST_Angles n = Inr theta" and "k < nat n"
  shows "theta ! k = - (theta ! (nat n - 1 - k))"
proof -
  let ?x = "\<lambda>j. - 1 + real j * (2 / real_of_int (n - 1))"
  have theta: "theta = map (\<lambda>k. arcsin (?x k) * 180 / pi) [0..<nat n]"
    using EST_Angles_value [OF assms(1)] assms(2) by simp
  have k': "nat n - 1 - k < nat n" using assms by linarith
  have pos: "real_of_int (n - 1) \<noteq> 0" using assms(1) by simp
  have "real (nat n - 1 - k) = real_of_int (n - 1) - real k"
    using assms by simp
  then have "?x (nat n - 1 - k) = - 1 + (real_of_int (n - 1) - real k) * (2 / real_of_int (n - 1))"
    by simp
  also have "\<dots> = - ?x k" using pos by (simp add: field_simps)
  finally have mirror: "?x (nat n - 1 - k) = - ?x k" .
  have "arcsin (- ?x k) = - arcsin (?x k)"
    using sample_in_range [OF assms(1) assms(3)] by (rule arcsin_minus)
  with mirror have "arcsin (?x (nat n - 1 - k)) = - arcsin (?x k)" by simp
  with theta assms(3) k' show ?thesis by simp
qed

theorem EST_Angles_symmetric_witness:
  "(2::int) \<le> 2 \<and> EST_Angles 2 = Inr [- 90, 90] \<and> (0::nat) < nat 2 \<and>
   [- 90, 90 :: real] ! 0 = - ([- 90, 90] ! (nat 2 - 1 - 0))"
proof -
  have h: "(2::int) \<le> 2" by simp
  have e: "EST_Angles 2 = Inr [- 90, 90]"
    by (simp add: EST_Angles_def np_linspace_def Let_def upt_conv_Cons)
  have k: "(0::nat) < nat 2" by simp
  from EST_Angles_symmetric [OF h e k] h e k show ?thesis by simp
qed

subsection \<open>Non-negativity, with NaN\<close>

lemma first_iteration_never_breaks_fp:
  assumes "previous_error_fp st = PInf"
  shows "EST_iteration_fp ndrotate sinogram theta tolerance learning_rate st \<noteq> Inr Break_fp"
proof -
  have "\<not> fless (fabs (fsub PInf max_error)) tolerance" for max_error
    by (cases max_error; cases tolerance) (simp_all add: fsub_def)
  with assms show ?thesis
    by (simp add: EST_iteration_fp_def Let_def split: sum.splits)
qed

lemma fmaximum_zero: "fmaximum x (Num 0) = NaN \<or> sample_non_negative (fmaximum x (Num 0))"
  by (cases x) (simp_all add: fmaximum_def)

lemma non_negative_or_nan_np_maximum0_fp: "non_negative_or_nan (np_maximum0_fp a)"
  by (simp add: non_negative_or_nan_def np_maximum0_fp_def list_all_iff fmaximum_zero)

lemma update_fp_non_negative_or_nan:
  "update_fp a learning_rate n b = Inr a' \<Longrightarrow> non_negative_or_nan a'"
  by (auto simp: update_fp_def non_negative_or_nan_np_maximum0_fp split: sum.splits)

lemma EST_iteration_fp_Next_image:
  assumes "EST_iteration_fp ndrotate sinogram theta tolerance learning_rate st
             = Inr (Next_fp st')"
  shows "non_negative_or_nan (estimated_image_fp st')"
  using assms
  by (auto simp: EST_iteration_fp_def Let_def split: sum.splits if_splits
      dest: update_fp_non_negative_or_nan)

text \<open>The invariant of the loop: the image is clipped, or no iteration has run yet and at
  least one is still to come.\<close>

lemma EST_loop_fp_non_negative_or_nan:
  assumes "EST_loop_fp ndrotate sinogram theta tolerance learning_rate its st = Inr (img, ex)"
    and "non_negative_or_nan (estimated_image_fp st) \<or>
         (previous_error_fp st = PInf \<and> its \<noteq> [])"
  shows "non_negative_or_nan img"
  using assms
proof (induction its arbitrary: st)
  case Nil
  then show ?case by simp
next
  case (Cons iteration rest)
  show ?case
  proof (cases "EST_iteration_fp ndrotate sinogram theta tolerance learning_rate st")
    case (Inl e)
    with Cons.prems show ?thesis by simp
  next
    case (Inr s)
    show ?thesis
    proof (cases s)
      case Break_fp
      with Inr Cons.prems
        first_iteration_never_breaks_fp [of st ndrotate sinogram theta tolerance learning_rate]
      show ?thesis by auto
    next
      case (Next_fp st')
      with Inr have "non_negative_or_nan (estimated_image_fp st')"
        by (auto dest: EST_iteration_fp_Next_image)
      moreover from Next_fp Inr Cons.prems
      have "EST_loop_fp ndrotate sinogram theta tolerance learning_rate rest st' = Inr (img, ex)"
        by simp
      ultimately show ?thesis using Cons.IH by blast
    qed
  qed
qed

text \<open>
  C2, as the code has it. \<open>np.maximum\<close> passes NaN on, so the clipping leaves every element
  either \<open>\<ge> 0\<close> or NaN: this holds for the image of every iteration that completes and,
  with \<open>num_iterations \<ge> 1\<close>, for the image that \<open>EST_reco\<close> returns, whether the loop ends by
  convergence or by running out of iterations.
\<close>

theorem clipped_image_non_negative_or_nan:
  "(EST_iteration_fp ndrotate sinogram theta tolerance learning_rate st = Inr (Next_fp st') \<longrightarrow>
      non_negative_or_nan (estimated_image_fp st')) \<and>
   (1 \<le> num_iterations \<and>
    EST_reco_fp ndrotate iradon sinogram theta num_iterations tolerance learning_rate = Inr img
      \<longrightarrow> non_negative_or_nan img)"
proof (intro conjI impI)
  assume "EST_iteration_fp ndrotate sinogram theta tolerance learning_rate st = Inr (Next_fp st')"
  then show "non_negative_or_nan (estimated_image_fp st')" by (rule EST_iteration_fp_Next_image)
next
  assume a: "1 \<le> num_iterations \<and>
    EST_reco_fp ndrotate iradon sinogram theta num_iterations tolerance learning_rate = Inr img"
  then have ne: "[0..<nat num_iterations] \<noteq> []" by simp
  from a obtain initial_guess ex where
    "EST_loop_fp ndrotate sinogram theta tolerance learning_rate [0..<nat num_iterations]
       \<lparr>estimated_image_fp = initial_guess, previous_error_fp = PInf\<rparr> = Inr (img, ex)"
    by (auto simp: EST_reco_fp_def EST_run_fp_def split: sum.splits)
  then show "non_negative_or_nan img"
    using ne by (auto dest: EST_loop_fp_non_negative_or_nan)
qed

text \<open>A 1 x 1 sinogram with the sample -1, the angle 0 and an initial image with the sample
  -1: the image returned after two iterations is [[0]].\<close>

theorem clipped_image_non_negative_or_nan_witness:
  "(1::int) \<le> 2 \<and>
   EST_reco_fp no_rotation_fp (initializer_returning_fp [[Num (- 1)]]) [[Num (- 1)]] [Num 0] 2
     (Num (1 / 100000)) (Num (5 / 100000)) = Inr [[Num 0]] \<and>
   non_negative_or_nan [[Num 0]]"
proof -
  have e: "EST_reco_fp no_rotation_fp (initializer_returning_fp [[Num (- 1)]]) [[Num (- 1)]]
     [Num 0] 2 (Num (1 / 100000)) (Num (5 / 100000)) = Inr [[Num 0]]"
    by code_simp
  from clipped_image_non_negative_or_nan
    [of no_rotation_fp "[[Num (- 1)]]" "[Num 0]" "Num (1 / 100000)" "Num (5 / 100000)" _ _ 2
       "initializer_returning_fp [[Num (- 1)]]" "[[Num 0]]"]
    e
  show ?thesis by simp
qed

text \<open>The claim as it is written fails on a sinogram with a NaN sample. The error, its
  maximum and the backprojected error are NaN, \<open>NaN != 0\<close> holds, and the image of the
  first and of every later iteration is NaN, which is not \<open>\<ge> 0\<close>.\<close>

theorem non_negativity_counterexample:
  "EST_run_fp no_rotation_fp (initializer_returning_fp [[NaN]]) [[NaN]] [Num 0] 1
     (Num (1 / 100000)) (Num (5 / 100000)) = Inr ([[NaN]], Exhausted) \<and>
   EST_reco_fp no_rotation_fp (initializer_returning_fp [[NaN]]) [[NaN]] [Num 0] 200
     (Num (1 / 100000)) (Num (5 / 100000)) = Inr [[NaN]] \<and>
   EST_reco_fp no_rotation_fp (initializer_returning_fp [[Num 0]]) [[NaN]] [Num 0] 200
     (Num (1 / 100000)) (Num (5 / 100000)) = Inr [[NaN]] \<and>
   \<not> non_negative_fp [[NaN]]"
proof (intro conjI)
  show "EST_run_fp no_rotation_fp (initializer_returning_fp [[NaN]]) [[NaN]] [Num 0] 1
     (Num (1 / 100000)) (Num (5 / 100000)) = Inr ([[NaN]], Exhausted)"
    by code_simp
  show "EST_reco_fp no_rotation_fp (initializer_returning_fp [[NaN]]) [[NaN]] [Num 0] 200
     (Num (1 / 100000)) (Num (5 / 100000)) = Inr [[NaN]]"
    by code_simp
  show "EST_reco_fp no_rotation_fp (initializer_returning_fp [[Num 0]]) [[NaN]] [Num 0] 200
     (Num (1 / 100000)) (Num (5 / 100000)) = Inr [[NaN]]"
    by code_simp
  show "\<not> non_negative_fp [[NaN]]"
    by (simp add: non_negative_fp_def)
qed

subsection \<open>The convergence check\<close>





subsection \<open>The first iteration\<close>

lemma EST_loop_fp_Converged_index:
  "EST_loop_fp ndrotate sinogram theta tolerance learning_rate its st = Inr (img, Converged k)
   \<Longrightarrow> \<exists>iteration \<in> set its. k = iteration + 1"
proof (induction its arbitrary: st)
  case Nil
  then show ?case by simp
next
  case (Cons iteration rest)
  then show ?case
    by (auto split: sum.splits step_fp.splits)
qed

text \<open>Lines 110--111, element by element.\<close>

lemma update_fp_elements:
  assumes "update_fp img learning_rate num_projections b = Inr new_image"
  shows "length new_image = min (length img) (length b) \<and>
         (\<forall>i < length new_image.
            length (new_image ! i) = min (length (img ! i)) (length (b ! i)) \<and>
            (\<forall>j < length (new_image ! i).
               new_image ! i ! j =
                 fmaximum
                   (fadd (img ! i ! j)
                      (fmul learning_rate (fdiv (b ! i ! j) (Num (real num_projections)))))
                   (Num 0)))"
proof -
  let ?g = "map (map (\<lambda>x. fdiv x (Num (real num_projections)))) b"
  from assms have n: "new_image = np_maximum0_fp (np_add_fp img (np_scale_fp learning_rate ?g))"
    by (auto simp: update_fp_def np_div_scalar_fp_def split: if_splits)
  then have l: "length new_image = min (length img) (length b)"
    by (simp add: np_maximum0_fp_def np_add_fp_def np_scale_fp_def)
  have "length (new_image ! i) = min (length (img ! i)) (length (b ! i)) \<and>
        (\<forall>j < length (new_image ! i).
           new_image ! i ! j =
             fmaximum
               (fadd (img ! i ! j)
                  (fmul learning_rate (fdiv (b ! i ! j) (Num (real num_projections)))))
               (Num 0))"
    if i: "i < length new_image" for i
  proof -
    from i l have ii: "i < length img" "i < length b" by simp_all
    then have row: "new_image ! i =
        map (\<lambda>x. fmaximum x (Num 0))
          (map2 fadd (img ! i)
             (map (\<lambda>x. fmul learning_rate x)
                (map (\<lambda>x. fdiv x (Num (real num_projections))) (b ! i))))"
      unfolding n by (simp add: np_maximum0_fp_def np_add_fp_def np_scale_fp_def)
    show ?thesis unfolding row by simp
  qed
  with l show ?thesis by blast
qed

text \<open>
  C10. \<open>previous_error\<close> starts as infinity, so the first iteration never takes the early
  exit, whatever the first maximal error and the tolerance are: when \<open>EST_reco\<close> ends with
  "Convergence reached at iteration k", then \<open>k \<ge> 2\<close>, and the first iteration has replaced
  the initial image by \<open>max (image + learning_rate * (backprojected_error /
  num_projections), 0)\<close>, element by element, with the normalised backprojected error.
\<close>

theorem first_iteration_applies_update_and_clip:
  assumes "EST_run_fp ndrotate iradon sinogram theta num_iterations tolerance learning_rate
             = Inr (img, Converged k)"
  shows "2 \<le> k \<and>
         (\<exists>initial_guess st1 projections b b'.
            iradon (np_rot90_neg_fp sinogram) theta = Inr initial_guess \<and>
            EST_iteration_fp ndrotate sinogram theta tolerance learning_rate
              \<lparr>estimated_image_fp = initial_guess, previous_error_fp = PInf\<rparr>
              = Inr (Next_fp st1) \<and>
            forward_projection_fp ndrotate initial_guess (length sinogram) (ncols_fp sinogram)
              theta = Inr projections \<and>
            backprojection_fp ndrotate initial_guess (ncols_fp sinogram)
              (np_sub_fp sinogram projections) theta = Inr b \<and>
            normalize_fp b = Inr b' \<and>
            length (estimated_image_fp st1) = min (length initial_guess) (length b') \<and>
            (\<forall>i < length (estimated_image_fp st1).
               length (estimated_image_fp st1 ! i)
                 = min (length (initial_guess ! i)) (length (b' ! i)) \<and>
               (\<forall>j < length (estimated_image_fp st1 ! i).
                  estimated_image_fp st1 ! i ! j =
                    fmaximum
                      (fadd (initial_guess ! i ! j)
                         (fmul learning_rate
                            (fdiv (b' ! i ! j) (Num (real (length sinogram))))))
                      (Num 0))))"
proof -
  from assms obtain initial_guess where
    ig: "iradon (np_rot90_neg_fp sinogram) theta = Inr initial_guess" and
    lp: "EST_loop_fp ndrotate sinogram theta tolerance learning_rate [0..<nat num_iterations]
           \<lparr>estimated_image_fp = initial_guess, previous_error_fp = PInf\<rparr>
           = Inr (img, Converged k)"
    by (auto simp: EST_run_fp_def split: sum.splits)
  let ?st0 = "\<lparr>estimated_image_fp = initial_guess, previous_error_fp = PInf\<rparr>"
  from lp have "[0..<nat num_iterations] \<noteq> []" by auto
  then have its: "[0..<nat num_iterations] = 0 # [1..<nat num_iterations]"
    by (simp add: upt_conv_Cons)
  have nb: "EST_iteration_fp ndrotate sinogram theta tolerance learning_rate ?st0 \<noteq> Inr Break_fp"
    by (rule first_iteration_never_breaks_fp) simp
  from lp its nb obtain st1 where
    s1: "EST_iteration_fp ndrotate sinogram theta tolerance learning_rate ?st0
           = Inr (Next_fp st1)" and
    l1: "EST_loop_fp ndrotate sinogram theta tolerance learning_rate [1..<nat num_iterations] st1
           = Inr (img, Converged k)"
    by (auto split: sum.splits step_fp.splits)
  from l1 have "\<exists>iteration \<in> set [1..<nat num_iterations]. k = iteration + 1"
    by (rule EST_loop_fp_Converged_index)
  then have k: "2 \<le> k" by auto
  from s1 obtain projections b b' where
    fp: "forward_projection_fp ndrotate initial_guess (length sinogram) (ncols_fp sinogram)
           theta = Inr projections" and
    bp: "backprojection_fp ndrotate initial_guess (ncols_fp sinogram)
           (np_sub_fp sinogram projections) theta = Inr b" and
    nm: "normalize_fp b = Inr b'" and
    up: "update_fp initial_guess learning_rate (length sinogram) b'
           = Inr (estimated_image_fp st1)"
    by (auto simp: EST_iteration_fp_def Let_def split: sum.splits if_splits)
  from update_fp_elements [OF up] k ig s1 fp bp nm show ?thesis by blast
qed

theorem first_iteration_applies_update_and_clip_witness:
  "EST_run_fp no_rotation_fp (initializer_returning_fp [[Num (- 1)]]) [[Num (- 1)]] [Num 0] 200
     (Num (1 / 100000)) (Num (5 / 100000)) = Inr ([[Num 0]], Converged 3) \<and> (2::nat) \<le> 3"
proof -
  have e: "EST_run_fp no_rotation_fp (initializer_returning_fp [[Num (- 1)]]) [[Num (- 1)]]
     [Num 0] 200 (Num (1 / 100000)) (Num (5 / 100000)) = Inr ([[Num 0]], Converged 3)"
    by code_simp
  from first_iteration_applies_update_and_clip [OF e] e show ?thesis by simp
qed

subsection \<open>Division inside the loop\<close>

lemma forward_rows_error:
  "forward_rows ndrotate img num_detectors its projections = Inl e \<Longrightarrow> e = IndexError"
proof (induction its arbitrary: projections)
  case Nil
  then show ?case by simp
next
  case (Cons a its)
  obtain i angle where a: "a = (i, angle)" by (cases a)
  from Cons.prems Cons.IH show ?case
    unfolding a by (auto simp: Let_def split: if_splits)
qed

lemma np_max_abs_error: "np_max_abs a = Inl e \<Longrightarrow> e = ValueError"
  by (auto simp: np_max_abs_def Let_def split: if_splits)

lemma np_max_abs_Inr_nonempty: "np_max_abs a = Inr m \<Longrightarrow> concat a \<noteq> []"
  by (auto simp: np_max_abs_def Let_def split: if_splits)

lemma assign_leading_columns_error:
  "assign_leading_columns a num_detectors v = Inl e \<Longrightarrow> e = ValueError"
  by (auto simp: assign_leading_columns_def split: if_splits)

lemma backproject_rows_error:
  "backproject_rows ndrotate img num_detectors err its acc = Inl e \<Longrightarrow> e \<noteq> DivisionByZero"
proof (induction its arbitrary: acc)
  case Nil
  then show ?case by simp
next
  case (Cons a its)
  obtain i angle where a: "a = (i, angle)" by (cases a)
  from Cons.prems Cons.IH show ?case
    unfolding a
    by (auto simp: Let_def split: if_splits sum.splits dest: assign_leading_columns_error)
qed

lemma normalize_error: "normalize a = Inl e \<Longrightarrow> e = ValueError"
  by (auto simp: normalize_def np_div_scalar_def split: sum.splits if_splits
      dest: np_max_abs_error)

lemma np_sub_nonempty: "concat (np_sub a b) \<noteq> [] \<Longrightarrow> a \<noteq> []"
  by (auto simp: np_sub_def)

lemma EST_iteration_no_division_by_zero:
  "EST_iteration ndrotate sinogram theta tolerance learning_rate st \<noteq> Inl DivisionByZero"
proof
  assume a: "EST_iteration ndrotate sinogram theta tolerance learning_rate st = Inl DivisionByZero"
  show False
  proof (cases "forward_projection ndrotate (estimated_image st) (length sinogram)
                  (ncols sinogram) theta")
    case (Inl e)
    then have "e = IndexError"
      unfolding forward_projection_def by (rule forward_rows_error)
    with a Inl show False by (simp add: EST_iteration_def)
  next
    case fp: (Inr projections)
    show False
    proof (cases "np_max_abs (np_sub sinogram projections)")
      case (Inl e)
      then have "e = ValueError" by (rule np_max_abs_error)
      with a fp Inl show False by (simp add: EST_iteration_def)
    next
      case mx: (Inr max_error)
      then have "sinogram \<noteq> []"
        by (auto dest!: np_max_abs_Inr_nonempty np_sub_nonempty)
      then have P: "real (length sinogram) \<noteq> 0" by simp
      from a fp mx P show False
        by (auto simp: EST_iteration_def Let_def backprojection_def update_def
              np_div_scalar_def
            split: if_splits sum.splits
            dest: backproject_rows_error normalize_error)
    qed
  qed
qed

lemma EST_loop_no_division_by_zero:
  "EST_loop ndrotate sinogram theta tolerance learning_rate its st \<noteq> Inl DivisionByZero"
proof (induction its arbitrary: st)
  case Nil
  show ?case by simp
next
  case (Cons iteration rest)
  show ?case
    using Cons.IH
      EST_iteration_no_division_by_zero [of ndrotate sinogram theta tolerance learning_rate st]
    by (auto split: sum.splits step.splits)
qed

text \<open>
  C6. The normalisation divides the backprojected error by \<open>max |.|\<close> when that maximum is
  not zero and leaves it as it is when the maximum is zero; and no division inside the loop
  has a zero divisor: neither one iteration nor the whole loop ever ends in a division by
  zero.
\<close>

theorem no_division_by_zero_inside_loop:
  "(np_max_abs backprojected_error = Inr m \<longrightarrow>
      normalize backprojected_error =
        (if m \<noteq> 0 then Inr (map (map (\<lambda>x. x / m)) backprojected_error)
         else Inr backprojected_error)) \<and>
   EST_iteration ndrotate sinogram theta tolerance learning_rate st \<noteq> Inl DivisionByZero \<and>
   EST_loop ndrotate sinogram theta tolerance learning_rate its st \<noteq> Inl DivisionByZero"
  by (simp add: normalize_def np_div_scalar_def EST_iteration_no_division_by_zero
      EST_loop_no_division_by_zero)

theorem no_division_by_zero_inside_loop_witness:
  "np_max_abs [[0, 0], [0, 0]] = Inr 0 \<and>
   normalize [[0, 0], [0, 0]] = Inr [[0, 0], [0, 0]] \<and>
   np_max_abs [[2, - 4], [1, 0]] = Inr 4 \<and>
   normalize [[2, - 4], [1, 0]] = Inr [[1 / 2, - 1], [1 / 4, 0]]"
proof -
  have z: "np_max_abs [[0, 0], [0, 0]] = Inr 0" by code_simp
  have n: "np_max_abs [[2, - 4], [1, 0]] = Inr 4" by code_simp
  from no_division_by_zero_inside_loop [of "[[0, 0], [0, 0]]" 0] z
  have "normalize [[0, 0], [0, 0]] = Inr [[0, 0], [0, 0]]" by simp
  moreover from no_division_by_zero_inside_loop [of "[[2, - 4], [1, 0]]" 4] n
  have "normalize [[2, - 4], [1, 0]] = Inr [[1 / 2, - 1], [1 / 4, 0]]" by simp
  ultimately show ?thesis using z n by simp
qed

subsection \<open>The forward projection\<close>

lemma length_sum_rows:
  "\<forall>row \<in> set a. length row = c \<Longrightarrow> length acc = c \<Longrightarrow>
   length (foldl (\<lambda>acc row. map2 (+) acc row) acc a) = c"
  by (induction a arbitrary: acc) auto

lemma length_np_sum_axis0:
  assumes "is_matrix rows cols a"
  shows "length (np_sum_axis0 a) = cols"
  using assms unfolding np_sum_axis0_def is_matrix_def
  by (auto simp: list_all_iff intro!: length_sum_rows)

lemma length_resize_projection: "length (resize_projection num_detectors p) = num_detectors"
  by (simp add: resize_projection_def)

lemma forward_rows_enumerate:
  assumes "n + length theta \<le> length projections"
  shows "\<exists>res. forward_rows ndrotate img num_detectors (enumerate n theta) projections = Inr res \<and>
           length res = length projections \<and>
           (\<forall>i < length projections.
              res ! i = (if n \<le> i \<and> i < n + length theta
                         then resize_projection num_detectors
                                (np_sum_axis0 (ndrotate img (theta ! (i - n))))
                         else projections ! i))"
  using assms
proof (induction theta arbitrary: n projections)
  case Nil
  then show ?case by auto
next
  case (Cons angle theta)
  let ?p = "resize_projection num_detectors (np_sum_axis0 (ndrotate img angle))"
  let ?projections = "projections[n := ?p]"
  from Cons.prems have n: "n < length projections" by simp
  from Cons.prems have "Suc n + length theta \<le> length ?projections" by simp
  from Cons.IH [OF this] obtain res where
    r: "forward_rows ndrotate img num_detectors (enumerate (Suc n) theta) ?projections = Inr res"
    and l: "length res = length ?projections"
    and e: "\<forall>i < length ?projections.
              res ! i = (if Suc n \<le> i \<and> i < Suc n + length theta
                         then resize_projection num_detectors
                                (np_sum_axis0 (ndrotate img (theta ! (i - Suc n))))
                         else ?projections ! i)"
    by blast
  have "forward_rows ndrotate img num_detectors (enumerate n (angle # theta)) projections = Inr res"
    using r n by (simp add: Let_def)
  moreover have "length res = length projections" using l by simp
  moreover have "\<forall>i < length projections.
              res ! i = (if n \<le> i \<and> i < n + length (angle # theta)
                         then resize_projection num_detectors
                                (np_sum_axis0 (ndrotate img ((angle # theta) ! (i - n))))
                         else projections ! i)"
  proof (intro allI impI)
    fix i assume i: "i < length projections"
    consider "i < n" | "i = n" | "n < i" by linarith
    then show "res ! i = (if n \<le> i \<and> i < n + length (angle # theta)
                         then resize_projection num_detectors
                                (np_sum_axis0 (ndrotate img ((angle # theta) ! (i - n))))
                         else projections ! i)"
    proof cases
      case 1
      with e i show ?thesis by simp
    next
      case 2
      with e i n show ?thesis by simp
    next
      case 3
      then have "(angle # theta) ! (i - n) = theta ! (i - Suc n)"
        by (simp add: nth_Cons')
      with 3 e i show ?thesis by auto
    qed
  qed
  ultimately show ?case by blast
qed

text \<open>
  C4. For a square image of shape \<open>(S, S)\<close>, a rotation that keeps this shape and an angle
  set of length \<open>P\<close>, the forward projection onto \<open>P\<close> rows of \<open>D\<close> detectors succeeds
  with a sinogram of shape exactly \<open>(P, D)\<close>, whatever the relation between \<open>S\<close> and \<open>D\<close>:
  each profile has \<open>S\<close> samples, and row \<open>i\<close> is its first \<open>D\<close> samples when \<open>S > D\<close>, the
  profile followed by \<open>D - S\<close> zeros when \<open>S < D\<close>, and the profile itself when \<open>S = D\<close>.
\<close>

theorem forward_projection_shape:
  assumes "is_matrix S S img"
    and "\<forall>a angle. is_matrix S S a \<longrightarrow> is_matrix S S (ndrotate a angle)"
    and "length theta = P"
  shows "\<exists>projections.
           forward_projection ndrotate img P D theta = Inr projections \<and>
           length projections = P \<and> list_all (\<lambda>row. length row = D) projections \<and>
           (\<forall>i < P. length (np_sum_axis0 (ndrotate img (theta ! i))) = S \<and>
              (D < S \<longrightarrow> projections ! i = take D (np_sum_axis0 (ndrotate img (theta ! i)))) \<and>
              (S < D \<longrightarrow> projections ! i =
                 np_sum_axis0 (ndrotate img (theta ! i)) @ replicate (D - S) 0) \<and>
              (S = D \<longrightarrow> projections ! i = np_sum_axis0 (ndrotate img (theta ! i))))"
proof -
  have "0 + length theta \<le> length (np_zeros P D)"
    using assms(3) by (simp add: np_zeros_def)
  from forward_rows_enumerate [OF this, of ndrotate img D]
  obtain res where
    r: "forward_projection ndrotate img P D theta = Inr res"
    and l: "length res = P"
    and e: "\<forall>i < P. res ! i =
              resize_projection D (np_sum_axis0 (ndrotate img (theta ! i)))"
    using assms(3) by (auto simp: forward_projection_def np_zeros_def)
  have len: "length (np_sum_axis0 (ndrotate img angle)) = S" for angle
    using assms(1,2) by (blast intro: length_np_sum_axis0)
  have "list_all (\<lambda>row. length row = D) res"
    using l e by (auto simp: list_all_length length_resize_projection)
  moreover have "\<forall>i < P. length (np_sum_axis0 (ndrotate img (theta ! i))) = S \<and>
              (D < S \<longrightarrow> res ! i = take D (np_sum_axis0 (ndrotate img (theta ! i)))) \<and>
              (S < D \<longrightarrow> res ! i =
                 np_sum_axis0 (ndrotate img (theta ! i)) @ replicate (D - S) 0) \<and>
              (S = D \<longrightarrow> res ! i = np_sum_axis0 (ndrotate img (theta ! i)))"
    using e len by (simp add: resize_projection_def)
  ultimately show ?thesis using r l by blast
qed

theorem forward_projection_shape_witness:
  "is_matrix 3 3 [[1, 2, 3], [4, 5, 6], [7, 8, 9]] \<and> length [0, 0 :: real] = 2 \<and>
   (\<exists>projections.
      forward_projection no_rotation [[1, 2, 3], [4, 5, 6], [7, 8, 9]] 2 2 [0, 0]
        = Inr projections \<and>
      length projections = 2 \<and> projections ! 0 = [12, 15] \<and> projections ! 1 = [12, 15]) \<and>
   (\<exists>projections.
      forward_projection no_rotation [[1, 2, 3], [4, 5, 6], [7, 8, 9]] 2 5 [0, 0]
        = Inr projections \<and>
      length projections = 2 \<and> projections ! 0 = [12, 15, 18, 0, 0] \<and>
      projections ! 1 = [12, 15, 18, 0, 0])"
proof -
  let ?img = "[[1, 2, 3], [4, 5, 6], [7, 8, 9 :: real]]"
  have h1: "is_matrix 3 3 ?img" by code_simp
  have h2: "\<forall>a angle. is_matrix 3 3 a \<longrightarrow> is_matrix 3 3 (no_rotation a angle)"
    by (simp add: no_rotation_def)
  have h3: "length [0, 0 :: real] = 2" by simp
  have r: "no_rotation ?img angle = ?img" for angle by (simp add: no_rotation_def)
  have s: "np_sum_axis0 ?img = [12, 15, 18]" by code_simp
  from forward_projection_shape [OF h1 h2 h3, of 2] s r
  have "\<exists>projections.
      forward_projection no_rotation ?img 2 2 [0, 0] = Inr projections \<and>
      length projections = 2 \<and> projections ! 0 = [12, 15] \<and> projections ! 1 = [12, 15]"
    by (auto simp: nth_Cons')
  moreover from forward_projection_shape [OF h1 h2 h3, of 5] s r
  have "\<exists>projections.
      forward_projection no_rotation ?img 2 5 [0, 0] = Inr projections \<and>
      length projections = 2 \<and> projections ! 0 = [12, 15, 18, 0, 0] \<and>
      projections ! 1 = [12, 15, 18, 0, 0]"
    by (auto simp: nth_Cons' numeral_2_eq_2)
  ultimately show ?thesis using h1 h3 by blast
qed

subsection \<open>No validation at entry\<close>







subsection \<open>Zero residual\<close>


















subsection \<open>The inputs are not mutated\<close>

lemma unchanged_below_refl: "unchanged_below n h h"
  by (simp add: unchanged_below_def)

lemma unchanged_below_trans:
  "unchanged_below n h1 h2 \<Longrightarrow> unchanged_below n h2 h3 \<Longrightarrow> unchanged_below n h1 h3"
  by (simp add: unchanged_below_def)

lemma unchanged_below_write:
  "n \<le> r \<Longrightarrow> unchanged_below n h (h[r := a]) \<and> length (h[r := a]) = length h"
  by (simp add: unchanged_below_def)

lemma forward_rows_store_frame:
  "forward_rows_store ndrotate image_ref num_detectors its projections h = Inr h' \<Longrightarrow>
   n \<le> projections \<Longrightarrow> unchanged_below n h h' \<and> length h' = length h"
proof (induction its arbitrary: h)
  case Nil
  then show ?case by (simp add: unchanged_below_refl)
next
  case (Cons a its)
  obtain i angle where a: "a = (i, angle)" by (cases a)
  let ?h = "h[projections := Array2 ((matrix_at h projections)
              [i := resize_projection num_detectors
                      (np_sum_axis0 (ndrotate (matrix_at h image_ref) angle))])]"
  from Cons.prems have
    r: "forward_rows_store ndrotate image_ref num_detectors its projections ?h = Inr h'"
    unfolding a by (simp add: Let_def split: if_splits)
  from Cons.IH [OF r Cons.prems(2)] unchanged_below_write [OF Cons.prems(2), of h]
  show ?case by (auto intro: unchanged_below_trans)
qed

lemma backproject_rows_store_frame:
  "backproject_rows_store ndrotate image_ref num_detectors err its backprojected_error h = Inr h'
   \<Longrightarrow> n \<le> backprojected_error \<Longrightarrow> n \<le> length h \<Longrightarrow>
   unchanged_below n h h'"
proof (induction its arbitrary: h)
  case Nil
  then show ?case by (simp add: unchanged_below_refl)
next
  case (Cons a its)
  obtain i angle where a: "a = (i, angle)" by (cases a)
  let ?h1 = "h @ [Array2 (np_zeros_like (matrix_at h image_ref))]"
  from Cons.prems(1) obtain assigned where
    r: "backproject_rows_store ndrotate image_ref num_detectors err its backprojected_error
          ((?h1[length h := Array2 assigned])
             [backprojected_error :=
                Array2 (np_add (matrix_at (?h1[length h := Array2 assigned]) backprojected_error)
                  (ndrotate (matrix_at (?h1[length h := Array2 assigned]) (length h))
                     (- angle)))]) = Inr h'"
    unfolding a by (auto simp: Let_def alloc_def split: if_splits sum.splits)
  let ?h2 = "?h1[length h := Array2 assigned]"
  let ?h3 = "?h2[backprojected_error :=
                Array2 (np_add (matrix_at ?h2 backprojected_error)
                  (ndrotate (matrix_at ?h2 (length h)) (- angle)))]"
  have 1: "unchanged_below n h ?h1" using Cons.prems(3) by (simp add: unchanged_below_def)
  have 2: "unchanged_below n ?h1 ?h2" using Cons.prems(3) by (simp add: unchanged_below_def)
  have 3: "unchanged_below n ?h2 ?h3" using Cons.prems(2) by (simp add: unchanged_below_def)
  have "n \<le> length ?h3" using Cons.prems(3) by simp
  from Cons.IH [OF r Cons.prems(2) this] have 4: "unchanged_below n ?h3 h'" .
  from 1 2 3 4 show ?case by (blast intro: unchanged_below_trans)
qed

lemma normalize_store_frame:
  "normalize_store backprojected_error h = Inr h' \<Longrightarrow> n \<le> backprojected_error \<Longrightarrow>
   unchanged_below n h h'"
  by (auto simp: normalize_store_def unchanged_below_def split: sum.splits if_splits)

lemma update_store_frame:
  "update_store image_ref learning_rate num_projections backprojected_error h = Inr (h', r) \<Longrightarrow>
   n \<le> image_ref \<Longrightarrow> n \<le> length h \<Longrightarrow>
   unchanged_below n h h' \<and> n \<le> r \<and> r < length h'"
  by (auto simp: update_store_def unchanged_below_def alloc_def Let_def split: sum.splits)

lemma EST_iteration_store_frame:
  assumes "EST_iteration_store ndrotate sinogram theta tolerance learning_rate h image_ref
             previous_err = Inr step"
    and "n \<le> image_ref" and "n \<le> length h"
  shows "case step of
           StoreBreak h' \<Rightarrow> unchanged_below n h h'
         | StoreNext h' r p \<Rightarrow> unchanged_below n h h' \<and> n \<le> r \<and> r < length h'"
proof -
  let ?P = "length (matrix_at h sinogram)"
  let ?D = "ncols (matrix_at h sinogram)"
  let ?h1 = "h @ [Array2 (np_zeros ?P ?D)]"
  have 1: "unchanged_below n h ?h1" using assms(3) by (simp add: unchanged_below_def)
  from assms(1) obtain h2 where
    f: "forward_rows_store ndrotate image_ref ?D (enumerate 0 (vector_at ?h1 theta)) (length h) ?h1
          = Inr h2"
    by (auto simp: EST_iteration_store_def alloc_def Let_def split: sum.splits)
  from forward_rows_store_frame [OF f assms(3)]
  have 2: "unchanged_below n ?h1 h2" and l2: "length h2 = length ?h1" by simp_all
  from 1 2 have 12: "unchanged_below n h h2" by (rule unchanged_below_trans)
  show ?thesis
  proof (cases step)
    case (StoreBreak h')
    with assms(1) f have "h' = h2"
      by (auto simp: EST_iteration_store_def alloc_def Let_def split: sum.splits if_splits prod.splits)
    with 12 StoreBreak show ?thesis by simp
  next
    case (StoreNext h' r p)
    let ?h3 = "h2 @ [Array2 (np_zeros_like (matrix_at h2 image_ref))]"
    let ?err = "np_sub (matrix_at h2 sinogram) (matrix_at h2 (length h))"
    from assms(1) f StoreNext obtain h4 h5 where
      b: "backproject_rows_store ndrotate image_ref ?D ?err (enumerate 0 (vector_at ?h3 theta))
            (length h2) ?h3 = Inr h4"
      and nm: "normalize_store (length h2) h4 = Inr h5"
      and up: "update_store image_ref learning_rate ?P (length h2) h5 = Inr (h', r)"
      by (auto simp: EST_iteration_store_def alloc_def Let_def
          split: sum.splits if_splits prod.splits)
    have n2: "n \<le> length h2" using l2 assms(3) by simp
    have 3: "unchanged_below n h2 ?h3" using n2 by (simp add: unchanged_below_def)
    have "n \<le> length ?h3" using n2 by simp
    from backproject_rows_store_frame [OF b n2 this] have 4: "unchanged_below n ?h3 h4" .
    from normalize_store_frame [OF nm n2] have 5: "unchanged_below n h4 h5" .
    from 3 4 5 have 35: "unchanged_below n h2 h5" by (blast intro: unchanged_below_trans)
    then have "n \<le> length h5" using n2 by (simp add: unchanged_below_def)
    from update_store_frame [OF up assms(2) this]
    have 6: "unchanged_below n h5 h'" "n \<le> r" "r < length h'" by simp_all
    from 12 35 6(1) have "unchanged_below n h h'" by (blast intro: unchanged_below_trans)
    with 6 StoreNext show ?thesis by simp
  qed
qed

lemma EST_loop_store_frame:
  "EST_loop_store ndrotate sinogram theta tolerance learning_rate its h image_ref previous_err
     = Inr (h', r) \<Longrightarrow>
   n \<le> image_ref \<Longrightarrow> image_ref < length h \<Longrightarrow> n \<le> length h \<Longrightarrow>
   unchanged_below n h h' \<and> n \<le> r \<and> r < length h'"
proof (induction its arbitrary: h image_ref previous_err)
  case Nil
  then show ?case by (simp add: unchanged_below_refl)
next
  case (Cons iteration rest)
  from Cons.prems(1) obtain step where
    s: "EST_iteration_store ndrotate sinogram theta tolerance learning_rate h image_ref
          previous_err = Inr step"
    by (auto split: sum.splits)
  note fr = EST_iteration_store_frame [OF s Cons.prems(2) Cons.prems(4)]
  show ?case
  proof (cases step)
    case (StoreBreak h1)
    with s Cons.prems(1) have "h' = h1" "r = image_ref" by simp_all
    with fr StoreBreak Cons.prems show ?thesis
      by (auto simp: unchanged_below_def)
  next
    case (StoreNext h1 r1 p1)
    with s Cons.prems(1) have
      l: "EST_loop_store ndrotate sinogram theta tolerance learning_rate rest h1 r1 p1
            = Inr (h', r)"
      by simp
    from fr StoreNext have 1: "unchanged_below n h h1" "n \<le> r1" "r1 < length h1" by simp_all
    then have "n \<le> length h1" by simp
    from Cons.IH [OF l 1(2) 1(3) this] 1(1) show ?thesis
      by (blast intro: unchanged_below_trans)
  qed
qed

text \<open>
  C9. When \<open>EST_reco\<close> returns, by convergence or after the last iteration, the arrays at the
  references \<open>sinogram\<close> and \<open>theta\<close> have the content they had at entry; so has every array
  that existed at entry. All in-place statements write arrays that the call has created
  itself, and the array returned is one of them.
\<close>

theorem EST_reco_never_mutates_inputs:
  assumes "EST_reco_store ndrotate iradon h sinogram theta num_iterations tolerance learning_rate
             = Inr (h', result)"
    and "sinogram < length h" and "theta < length h"
  shows "h' ! sinogram = h ! sinogram \<and> h' ! theta = h ! theta \<and>
         take (length h) h' = h \<and> length h \<le> result \<and> result < length h'"
proof -
  from assms(1) obtain initial_guess where
    l: "EST_loop_store ndrotate sinogram theta tolerance learning_rate [0..<nat num_iterations]
          (h @ [Array2 initial_guess]) (length h) Infinity = Inr (h', result)"
    by (auto simp: EST_reco_store_def alloc_def split: sum.splits)
  from EST_loop_store_frame [OF l, of "length h"]
  have u: "unchanged_below (length h) (h @ [Array2 initial_guess]) h'"
    and r: "length h \<le> result" "result < length h'"
    by simp_all
  from u have t: "take (length h) h' = h" by (simp add: unchanged_below_def)
  have "h' ! r = h ! r" if "r < length h" for r
  proof -
    from that have "h' ! r = take (length h) h' ! r" by simp
    with t show ?thesis by simp
  qed
  with assms(2,3) t r show ?thesis by simp
qed

theorem EST_reco_never_mutates_inputs_witness:
  "EST_reco_store no_rotation (initializer_returning [[1, 2], [3, 4]])
     [Array1 [0], Array2 [[4, 7]]] 1 0 1 (1 / 100000) (5 / 100000)
     = Inr ([Array1 [0], Array2 [[4, 7]],
             Array2 [[1, 40001 / 20000], [3, 80001 / 20000]], Array2 [[4, 6]],
             Array2 [[0, 1], [0, 1]], Array2 [[0, 1], [0, 1]],
             Array2 [[1, 40001 / 20000], [3, 80001 / 20000]]], 6) \<and>
   (1::nat) < length [Array1 [0], Array2 [[4, 7]]] \<and>
   (0::nat) < length [Array1 [0], Array2 [[4, 7]]] \<and>
   [Array1 [0], Array2 [[4, 7]],
    Array2 [[1, 40001 / 20000], [3, 80001 / 20000]], Array2 [[4, 6]],
    Array2 [[0, 1], [0, 1]], Array2 [[0, 1], [0, 1]],
    Array2 [[1, 40001 / 20000], [3, 80001 / 20000]]] ! 1 = [Array1 [0], Array2 [[4, 7]]] ! 1"
proof -
  have e: "EST_reco_store no_rotation (initializer_returning [[1, 2], [3, 4]])
     [Array1 [0], Array2 [[4, 7]]] 1 0 1 (1 / 100000) (5 / 100000)
     = Inr ([Array1 [0], Array2 [[4, 7]],
             Array2 [[1, 40001 / 20000], [3, 80001 / 20000]], Array2 [[4, 6]],
             Array2 [[0, 1], [0, 1]], Array2 [[0, 1], [0, 1]],
             Array2 [[1, 40001 / 20000], [3, 80001 / 20000]]], 6)"
    by code_simp
  have s: "(1::nat) < length [Array1 [0], Array2 [[4, 7]]]" by simp
  have t: "(0::nat) < length [Array1 [0], Array2 [[4, 7]]]" by simp
  from EST_reco_never_mutates_inputs [OF e s t] e s t show ?thesis by blast
qed

subsection \<open>The store embedding agrees with the value embedding\<close>

text \<open>Called on references to a sinogram and an angle set, \<open>EST_reco_store\<close> raises what
  \<open>EST_reco\<close> raises on their contents, and otherwise returns a reference to the image that
  \<open>EST_reco\<close> returns.\<close>

lemma matrix_at_write_other:
  "r \<noteq> p \<Longrightarrow> matrix_at (h[p := a]) r = matrix_at h r"
  by (simp add: matrix_at_def)

lemma matrix_at_write_same:
  "p < length h \<Longrightarrow> matrix_at (h[p := Array2 m]) p = m"
  by (simp add: matrix_at_def)

lemma matrix_at_Array2: "h ! r = Array2 m \<Longrightarrow> matrix_at h r = m"
  by (simp add: matrix_at_def)

lemma vector_at_Array1: "h ! r = Array1 v \<Longrightarrow> vector_at h r = v"
  by (simp add: vector_at_def)

lemma write_id: "h ! p = a \<Longrightarrow> h[p := a] = h"
  by (metis list_update_id)

lemma forward_rows_store_sim:
  assumes "projections < length h" and "h ! projections = Array2 projs"
    and "projections \<noteq> image_ref"
  shows "forward_rows_store ndrotate image_ref num_detectors its projections h =
         (case forward_rows ndrotate (matrix_at h image_ref) num_detectors its projs of
            Inl e \<Rightarrow> Inl e
          | Inr res \<Rightarrow> Inr (h[projections := Array2 res]))"
  using assms
proof (induction its arbitrary: h projs)
  case Nil
  then show ?case by (simp add: write_id)
next
  case (Cons a its)
  obtain i angle where a: "a = (i, angle)" by (cases a)
  let ?p = "resize_projection num_detectors (np_sum_axis0 (ndrotate (matrix_at h image_ref) angle))"
  let ?h = "h[projections := Array2 (projs[i := ?p])]"
  have m: "matrix_at h projections = projs"
    using Cons.prems(2) by (rule matrix_at_Array2)
  have "projections < length ?h" using Cons.prems(1) by simp
  moreover have "?h ! projections = Array2 (projs[i := ?p])" using Cons.prems(1) by simp
  ultimately have
    "forward_rows_store ndrotate image_ref num_detectors its projections ?h =
         (case forward_rows ndrotate (matrix_at ?h image_ref) num_detectors its (projs[i := ?p]) of
            Inl e \<Rightarrow> Inl e
          | Inr res \<Rightarrow> Inr (?h[projections := Array2 res]))"
    using Cons.prems(3) by (rule Cons.IH)
  moreover have "matrix_at ?h image_ref = matrix_at h image_ref"
    using Cons.prems(3) by (simp add: matrix_at_write_other)
  ultimately show ?case
    unfolding a by (simp add: Let_def m split: sum.splits)
qed

lemma backproject_rows_store_sim:
  assumes "b < length h" and "h ! b = Array2 acc" and "b \<noteq> image_ref"
    and "image_ref < length h"
  shows "case backproject_rows ndrotate (matrix_at h image_ref) num_detectors err its acc of
           Inl e \<Rightarrow>
             backproject_rows_store ndrotate image_ref num_detectors err its b h = Inl e
         | Inr res \<Rightarrow>
             (\<exists>h'. backproject_rows_store ndrotate image_ref num_detectors err its b h = Inr h' \<and>
                   h' ! b = Array2 res \<and> length h \<le> length h' \<and>
                   (\<forall>r < length h. r \<noteq> b \<longrightarrow> h' ! r = h ! r))"
  using assms
proof (induction its arbitrary: h acc)
  case Nil
  then show ?case by simp
next
  case (Cons a its)
  obtain i angle where a: "a = (i, angle)" by (cases a)
  let ?img = "matrix_at h image_ref"
  let ?h1 = "h @ [Array2 (np_zeros_like ?img)]"
  have x: "matrix_at ?h1 (length h) = np_zeros_like ?img" by (simp add: matrix_at_def)
  show ?case
  proof (cases "i < length err")
    case False
    then show ?thesis unfolding a by (simp add: alloc_def)
  next
    case i: True
    show ?thesis
    proof (cases "assign_leading_columns (np_zeros_like ?img) num_detectors (err ! i)")
      case (Inl e)
      with i show ?thesis unfolding a by (simp add: alloc_def x)
    next
      case (Inr assigned)
      let ?h2 = "h @ [Array2 assigned]"
      have h2: "?h1[length h := Array2 assigned] = ?h2" by simp
      let ?rot = "ndrotate assigned (- angle)"
      let ?h3 = "?h2[b := Array2 (np_add acc ?rot)]"
      have m2: "matrix_at ?h2 (length h) = assigned" by (simp add: matrix_at_def)
      have b2: "matrix_at ?h2 b = acc"
        using Cons.prems(1,2) by (simp add: matrix_at_def nth_append)
      have step: "backproject_rows_store ndrotate image_ref num_detectors err (a # its) b h =
                  backproject_rows_store ndrotate image_ref num_detectors err its b ?h3"
        unfolding a using i Inr by (simp add: alloc_def x Let_def h2 m2 b2 del: list_update_length)
      have pure: "backproject_rows ndrotate ?img num_detectors err (a # its) acc =
                  backproject_rows ndrotate ?img num_detectors err its (np_add acc ?rot)"
        unfolding a using i Inr by (simp add: Let_def)
      have 1: "b < length ?h3" using Cons.prems(1) by simp
      have 2: "?h3 ! b = Array2 (np_add acc ?rot)" using Cons.prems(1) by simp
      have 3: "image_ref < length ?h3" using Cons.prems(4) by simp
      have im: "matrix_at ?h3 image_ref = ?img"
        using Cons.prems(3,4) by (simp add: matrix_at_def nth_append)
      note IH = Cons.IH [OF 1 2 Cons.prems(3) 3, unfolded im]
      show ?thesis
      proof (cases "backproject_rows ndrotate ?img num_detectors err its (np_add acc ?rot)")
        case (Inl e)
        with IH step pure show ?thesis by simp
      next
        case (Inr res)
        with IH obtain h' where
          h': "backproject_rows_store ndrotate image_ref num_detectors err its b ?h3 = Inr h'"
            "h' ! b = Array2 res" "length ?h3 \<le> length h'"
            "\<forall>r < length ?h3. r \<noteq> b \<longrightarrow> h' ! r = ?h3 ! r"
          by auto
        have "\<forall>r < length h. r \<noteq> b \<longrightarrow> h' ! r = h ! r"
        proof (intro allI impI)
          fix r assume r: "r < length h" "r \<noteq> b"
          then have "h' ! r = ?h3 ! r" using h'(4) by simp
          also have "\<dots> = h ! r" using r by (simp add: nth_append)
          finally show "h' ! r = h ! r" .
        qed
        moreover have "length h \<le> length h'" using h'(3) by simp
        ultimately show ?thesis using h'(1,2) step pure Inr by simp
      qed
    qed
  qed
qed

lemma normalize_store_sim:
  assumes "b < length h" and "h ! b = Array2 be"
  shows "normalize_store b h =
         (case normalize be of Inl e \<Rightarrow> Inl e | Inr res \<Rightarrow> Inr (h[b := Array2 res]))"
  using assms
  by (auto simp: normalize_store_def normalize_def matrix_at_Array2 write_id
      split: sum.splits)

lemma update_store_sim:
  assumes "b < length h" and "h ! b = Array2 be" and "e < length h" and "h ! e = Array2 img"
  shows "case update img learning_rate num_projections be of
           Inl x \<Rightarrow> update_store e learning_rate num_projections b h = Inl x
         | Inr res \<Rightarrow>
             (\<exists>h'. update_store e learning_rate num_projections b h = Inr (h', length h) \<and>
                   h' ! length h = Array2 res \<and> length h' = Suc (length h) \<and>
                   (\<forall>r < length h. r \<noteq> e \<longrightarrow> h' ! r = h ! r))"
  using assms
  by (auto simp: update_store_def update_def matrix_at_Array2 alloc_def Let_def
      matrix_at_write_same nth_append
      split: sum.splits)


lemma EST_iteration_store_sim:
  assumes s: "sinogram < length h" "h ! sinogram = Array2 sino"
    and t: "theta < length h" "h ! theta = Array1 th"
    and e: "image_ref < length h" "h ! image_ref = Array2 img"
  shows "case EST_iteration ndrotate sino th tolerance learning_rate
                \<lparr>estimated_image = img, previous_error = prev\<rparr> of
           Inl x \<Rightarrow>
             EST_iteration_store ndrotate sinogram theta tolerance learning_rate h image_ref prev
               = Inl x
         | Inr Break \<Rightarrow>
             (\<exists>h'. EST_iteration_store ndrotate sinogram theta tolerance learning_rate h
                     image_ref prev = Inr (StoreBreak h') \<and>
                   length h \<le> length h' \<and> (\<forall>r < length h. h' ! r = h ! r))
         | Inr (Next st') \<Rightarrow>
             (\<exists>h' r'. EST_iteration_store ndrotate sinogram theta tolerance learning_rate h
                     image_ref prev = Inr (StoreNext h' r' (previous_error st')) \<and>
                   length h \<le> r' \<and> r' < length h' \<and> h' ! r' = Array2 (estimated_image st') \<and>
                   (\<forall>r < length h. r \<noteq> image_ref \<longrightarrow> h' ! r = h ! r))"
proof -
  let ?P = "length sino" and ?D = "ncols sino"
  let ?st = "\<lparr>estimated_image = img, previous_error = prev\<rparr>"
  let ?store = "EST_iteration_store ndrotate sinogram theta tolerance learning_rate h image_ref prev"
  let ?pure = "EST_iteration ndrotate sino th tolerance learning_rate ?st"
  let ?p = "length h"
  let ?h1 = "h @ [Array2 (np_zeros ?P ?D)]"
  have ms: "matrix_at h sinogram = sino" using s(2) by (rule matrix_at_Array2)
  have th1: "vector_at ?h1 theta = th" using t by (simp add: vector_at_def nth_append)
  have im1: "matrix_at ?h1 image_ref = img" using e by (simp add: matrix_at_def nth_append)
  have "?p \<noteq> image_ref" using e(1) by simp
  with forward_rows_store_sim [of ?p ?h1 "np_zeros ?P ?D" image_ref ndrotate ?D "enumerate 0 th"]
  have fw: "forward_rows_store ndrotate image_ref ?D (enumerate 0 th) ?p ?h1 =
         (case forward_projection ndrotate img ?P ?D th of
            Inl x \<Rightarrow> Inl x
          | Inr res \<Rightarrow> Inr (h @ [Array2 res]))"
    by (simp add: im1 forward_projection_def split: sum.splits)
  have store1: "?store =
     (case forward_rows_store ndrotate image_ref ?D (enumerate 0 th) ?p ?h1 of
        Inl x \<Rightarrow> Inl x
      | Inr h \<Rightarrow>
      let err = np_sub (matrix_at h sinogram) (matrix_at h ?p) in
      case np_max_abs err of
        Inl x \<Rightarrow> Inl x
      | Inr max_error \<Rightarrow>
      if below (error_change prev max_error) tolerance then Inr (StoreBreak h)
      else
      let (h, backprojected_error) =
            alloc h (Array2 (np_zeros_like (matrix_at h image_ref))) in
      case backproject_rows_store ndrotate image_ref ?D err
             (enumerate 0 (vector_at h theta)) backprojected_error h of
        Inl x \<Rightarrow> Inl x
      | Inr h \<Rightarrow>
      case normalize_store backprojected_error h of
        Inl x \<Rightarrow> Inl x
      | Inr h \<Rightarrow>
      case update_store image_ref learning_rate ?P backprojected_error h of
        Inl x \<Rightarrow> Inl x
      | Inr (h, image_ref) \<Rightarrow> Inr (StoreNext h image_ref (Finite max_error)))"
    by (simp add: EST_iteration_store_def alloc_def ms th1 Let_def)
  show ?thesis
  proof (cases "forward_projection ndrotate img ?P ?D th")
    case (Inl x)
    then show ?thesis by (simp add: store1 fw EST_iteration_def)
  next
    case fp: (Inr projections)
    let ?h2 = "h @ [Array2 projections]"
    let ?err = "np_sub sino projections"
    have s2: "matrix_at ?h2 sinogram = sino" using s by (simp add: matrix_at_def nth_append)
    have p2: "matrix_at ?h2 ?p = projections" by (simp add: matrix_at_def)
    have th2: "vector_at (h @ [a, a']) theta = th" for a a'
      using t by (simp add: vector_at_def nth_append)
    have im2: "matrix_at ?h2 image_ref = img" using e by (simp add: matrix_at_def nth_append)
    show ?thesis
    proof (cases "np_max_abs ?err")
      case (Inl x)
      then show ?thesis by (simp add: store1 fw fp EST_iteration_def s2 p2)
    next
      case mx: (Inr max_error)
      show ?thesis
      proof (cases "below (error_change prev max_error) tolerance")
        case True
        then have "?pure = Inr Break" by (simp add: EST_iteration_def fp mx)
        moreover from True have "?store = Inr (StoreBreak ?h2)"
          by (simp add: store1 fw fp s2 p2 mx)
        moreover have "\<forall>r < length h. ?h2 ! r = h ! r" by (simp add: nth_append)
        ultimately show ?thesis by simp
      next
        case nb: False
        let ?b = "Suc (length h)"
        let ?h3 = "h @ [Array2 projections, Array2 (np_zeros_like img)]"
        have store2: "?store =
          (case backproject_rows_store ndrotate image_ref ?D ?err (enumerate 0 th) ?b ?h3 of
             Inl x \<Rightarrow> Inl x
           | Inr h \<Rightarrow>
           case normalize_store ?b h of
             Inl x \<Rightarrow> Inl x
           | Inr h \<Rightarrow>
           case update_store image_ref learning_rate ?P ?b h of
             Inl x \<Rightarrow> Inl x
           | Inr (h, image_ref) \<Rightarrow> Inr (StoreNext h image_ref (Finite max_error)))"
          using nb by (simp add: store1 fw fp s2 p2 mx alloc_def im2 th2)
        have pure2: "?pure =
          (case backprojection ndrotate img ?D ?err th of
             Inl x \<Rightarrow> Inl x
           | Inr be \<Rightarrow>
           case normalize be of
             Inl x \<Rightarrow> Inl x
           | Inr be \<Rightarrow>
           case update img learning_rate ?P be of
             Inl x \<Rightarrow> Inl x
           | Inr new_image \<Rightarrow>
               Inr (Next \<lparr>estimated_image = new_image, previous_error = Finite max_error\<rparr>))"
          using nb by (simp add: EST_iteration_def fp mx cong: sum.case_cong)
        have b3: "?b < length ?h3" by simp
        have b3v: "?h3 ! ?b = Array2 (np_zeros_like img)" by (simp add: nth_append)
        have ne: "?b \<noteq> image_ref" using e(1) by simp
        have e3: "image_ref < length ?h3" using e(1) by simp
        have im3: "matrix_at ?h3 image_ref = img" using e by (simp add: matrix_at_def nth_append)
        note bsim = backproject_rows_store_sim [OF b3 b3v ne e3, of ndrotate ?D ?err
            "enumerate 0 th", unfolded im3, folded backprojection_def]
        show ?thesis
        proof (cases "backprojection ndrotate img ?D ?err th")
          case (Inl x)
          with bsim show ?thesis by (simp add: store2 pure2)
        next
          case bp: (Inr be)
          with bsim obtain h4 where
            h4: "backproject_rows_store ndrotate image_ref ?D ?err (enumerate 0 th) ?b ?h3 = Inr h4"
              "h4 ! ?b = Array2 be" "length ?h3 \<le> length h4"
              "\<forall>r < length ?h3. r \<noteq> ?b \<longrightarrow> h4 ! r = ?h3 ! r"
            by auto
          have b4: "?b < length h4" using h4(3) by simp
          note nsim = normalize_store_sim [OF b4 h4(2)]
          show ?thesis
          proof (cases "normalize be")
            case (Inl x)
            then show ?thesis by (simp add: store2 pure2 bp h4(1) nsim)
          next
            case nm: (Inr be')
            let ?h5 = "h4[?b := Array2 be']"
            have b5: "?b < length ?h5" using b4 by simp
            have b5v: "?h5 ! ?b = Array2 be'" using b4 by simp
            have e5: "image_ref < length ?h5" using e(1) h4(3) by simp
            have "h4 ! image_ref = ?h3 ! image_ref" using h4(4) e(1) by simp
            then have e5v: "?h5 ! image_ref = Array2 img"
              using e by (simp add: nth_append)
            note usim = update_store_sim [OF b5 b5v e5 e5v, of learning_rate ?P]
            show ?thesis
            proof (cases "update img learning_rate ?P be'")
              case (Inl x)
              with usim show ?thesis by (simp add: store2 pure2 bp h4(1) nsim nm)
            next
              case up: (Inr new_image)
              with usim obtain h6 where
                h6: "update_store image_ref learning_rate ?P ?b ?h5 = Inr (h6, length ?h5)"
                  "h6 ! length ?h5 = Array2 new_image" "length h6 = Suc (length ?h5)"
                  "\<forall>r < length ?h5. r \<noteq> image_ref \<longrightarrow> h6 ! r = ?h5 ! r"
                by auto
              have "?pure = Inr (Next \<lparr>estimated_image = new_image,
                                         previous_error = Finite max_error\<rparr>)"
                by (simp add: pure2 bp nm up)
              moreover have "?store = Inr (StoreNext h6 (length ?h5) (Finite max_error))"
                by (simp add: store2 h4(1) nsim nm h6(1))
              moreover have "length h \<le> length ?h5" using h4(3) by simp
              moreover have "length ?h5 < length h6" using h6(3) by simp
              moreover have "\<forall>r < length h. r \<noteq> image_ref \<longrightarrow> h6 ! r = h ! r"
              proof (intro allI impI)
                fix r assume r: "r < length h" "r \<noteq> image_ref"
                then have "h6 ! r = ?h5 ! r" using h6(4) h4(3) by simp
                also have "\<dots> = h4 ! r" using r by simp
                also have "\<dots> = ?h3 ! r" using h4(4) r by simp
                also have "\<dots> = h ! r" using r by (simp add: nth_append)
                finally show "h6 ! r = h ! r" .
              qed
              ultimately show ?thesis using h6(2) by simp
            qed
          qed
        qed
      qed
    qed
  qed
qed


lemma EST_loop_store_sim:
  assumes "sinogram < n" and "h ! sinogram = Array2 sino"
    and "theta < n" and "h ! theta = Array1 th"
    and "n \<le> image_ref" and "image_ref < length h" and "h ! image_ref = Array2 img"
  shows "case EST_loop ndrotate sino th tolerance learning_rate its
                \<lparr>estimated_image = img, previous_error = prev\<rparr> of
           Inl x \<Rightarrow>
             EST_loop_store ndrotate sinogram theta tolerance learning_rate its h image_ref prev
               = Inl x
         | Inr (res, ex) \<Rightarrow>
             (\<exists>h' r. EST_loop_store ndrotate sinogram theta tolerance learning_rate its h
                       image_ref prev = Inr (h', r) \<and>
                     r < length h' \<and> h' ! r = Array2 res)"
  using assms
proof (induction its arbitrary: h image_ref img prev)
  case Nil
  then show ?case by simp
next
  case (Cons iteration rest)
  let ?st = "\<lparr>estimated_image = img, previous_error = prev\<rparr>"
  have s: "sinogram < length h" and t: "theta < length h"
    using Cons.prems by simp_all
  note sim = EST_iteration_store_sim [OF s Cons.prems(2) t Cons.prems(4) Cons.prems(6)
      Cons.prems(7), of ndrotate tolerance learning_rate prev]
  show ?case
  proof (cases "EST_iteration ndrotate sino th tolerance learning_rate ?st")
    case (Inl x)
    with sim show ?thesis by simp
  next
    case (Inr step)
    show ?thesis
    proof (cases step)
      case Break
      with sim Inr obtain h' where
        h': "EST_iteration_store ndrotate sinogram theta tolerance learning_rate h image_ref prev
               = Inr (StoreBreak h')"
          "length h \<le> length h'" "\<forall>r < length h. h' ! r = h ! r"
        by auto
      from h'(2,3) Cons.prems(6,7) have "image_ref < length h'" "h' ! image_ref = Array2 img"
        by simp_all
      with h'(1) Inr Break show ?thesis by simp
    next
      case (Next st')
      with sim Inr obtain h' r' where
        h': "EST_iteration_store ndrotate sinogram theta tolerance learning_rate h image_ref prev
               = Inr (StoreNext h' r' (previous_error st'))"
          "length h \<le> r'" "r' < length h'" "h' ! r' = Array2 (estimated_image st')"
          "\<forall>r < length h. r \<noteq> image_ref \<longrightarrow> h' ! r = h ! r"
        by auto
      have 1: "h' ! sinogram = Array2 sino"
        using h'(5) s Cons.prems(1,2,5) by simp
      have 2: "h' ! theta = Array1 th"
        using h'(5) t Cons.prems(3,4,5) by simp
      have 3: "n \<le> r'" using h'(2) Cons.prems(5,6) by simp
      have st': "\<lparr>estimated_image = estimated_image st', previous_error = previous_error st'\<rparr>
                   = st'"
        by simp
      note IH = Cons.IH [OF Cons.prems(1) 1 Cons.prems(3) 2 3 h'(3) h'(4),
          of "previous_error st'", unfolded st']
      have store: "EST_loop_store ndrotate sinogram theta tolerance learning_rate
                     (iteration # rest) h image_ref prev =
                   EST_loop_store ndrotate sinogram theta tolerance learning_rate rest h' r'
                     (previous_error st')"
        using h'(1) by simp
      have pure: "EST_loop ndrotate sino th tolerance learning_rate (iteration # rest) ?st =
                  EST_loop ndrotate sino th tolerance learning_rate rest st'"
        using Inr Next by simp
      show ?thesis unfolding store pure by (rule IH)
    qed
  qed
qed

lemma EST_reco_store_refines_EST_reco:
  assumes "sinogram < length h" and "h ! sinogram = Array2 sino"
    and "theta < length h" and "h ! theta = Array1 th"
  shows "case EST_reco ndrotate iradon sino th num_iterations tolerance learning_rate of
           Inl x \<Rightarrow>
             EST_reco_store ndrotate iradon h sinogram theta num_iterations tolerance
               learning_rate = Inl x
         | Inr res \<Rightarrow>
             (\<exists>h' r. EST_reco_store ndrotate iradon h sinogram theta num_iterations tolerance
                       learning_rate = Inr (h', r) \<and>
                     r < length h' \<and> h' ! r = Array2 res)"
proof (cases "iradon (np_rot90_neg sino) th")
  case (Inl x)
  with assms show ?thesis
    by (simp add: EST_reco_def EST_run_def EST_reco_store_def matrix_at_Array2 vector_at_Array1)
next
  case (Inr initial_guess)
  let ?h = "h @ [Array2 initial_guess]"
  have 1: "?h ! sinogram = Array2 sino" using assms(1,2) by (simp add: nth_append)
  have 2: "?h ! theta = Array1 th" using assms(3,4) by (simp add: nth_append)
  have 3: "length h < length ?h" by simp
  have 4: "?h ! length h = Array2 initial_guess" by simp
  note sim = EST_loop_store_sim [OF assms(1) 1 assms(3) 2 order_refl 3 4,
      of ndrotate tolerance learning_rate "[0..<nat num_iterations]" Infinity]
  from assms Inr have store:
    "EST_reco_store ndrotate iradon h sinogram theta num_iterations tolerance learning_rate =
     EST_loop_store ndrotate sinogram theta tolerance learning_rate [0..<nat num_iterations]
       ?h (length h) Infinity"
    by (simp add: EST_reco_store_def matrix_at_Array2 vector_at_Array1 alloc_def)
  from Inr have pure:
    "EST_run ndrotate iradon sino th num_iterations tolerance learning_rate =
     EST_loop ndrotate sino th tolerance learning_rate [0..<nat num_iterations]
       \<lparr>estimated_image = initial_guess, previous_error = Infinity\<rparr>"
    by (simp add: EST_run_def)
  from sim show ?thesis
    unfolding store EST_reco_def pure
    by (auto split: sum.splits)
qed

subsection \<open>The embedding on samples agrees with the embedding on real numbers\<close>

text \<open>On arrays of numbers, with a tolerance and a learning rate that are numbers, and with
  library functions that map numbers to numbers, \<open>EST_reco_fp\<close> computes what \<open>EST_reco\<close>
  computes.\<close>

lemma ncols_fp_Num: "ncols_fp (map (map Num) a) = ncols a"
  by (cases a) (simp_all add: ncols_fp_def ncols_def)

lemma np_rot90_neg_fp_Num: "np_rot90_neg_fp (map (map Num) a) = map (map Num) (np_rot90_neg a)"
  by (simp add: np_rot90_neg_fp_def np_rot90_neg_def transpose_map_map rev_map)

lemma map2_fadd_Num: "map2 fadd (map Num xs) (map Num ys) = map Num (map2 (+) xs ys)"
  by (induction xs arbitrary: ys) (auto simp: zip_Cons1 split: list.splits)

lemma map2_fsub_Num: "map2 fsub (map Num xs) (map Num ys) = map Num (map2 (-) xs ys)"
  by (induction xs arbitrary: ys) (auto simp: zip_Cons1 fsub_def split: list.splits)

lemma foldl_rows_Num:
  "foldl (\<lambda>acc row. map2 fadd acc row) (map Num acc) (map (map Num) a) =
   map Num (foldl (\<lambda>acc row. map2 (+) acc row) acc a)"
proof (induction a arbitrary: acc)
  case Nil
  show ?case by simp
next
  case (Cons row a)
  from Cons.IH [of "map2 (+) acc row"] show ?case
    by (simp only: list.map foldl_Cons map2_fadd_Num)
qed

lemma np_sum_axis0_fp_Num: "np_sum_axis0_fp (map (map Num) a) = map Num (np_sum_axis0 a)"
  using foldl_rows_Num [of "replicate (ncols a) 0" a]
  by (simp add: np_sum_axis0_fp_def np_sum_axis0_def ncols_fp_Num)

lemma resize_projection_fp_Num:
  "resize_projection_fp n (map Num p) = map Num (resize_projection n p)"
  by (simp add: resize_projection_fp_def resize_projection_def take_map)

lemma np_sub_fp_Num:
  "np_sub_fp (map (map Num) a) (map (map Num) b) = map (map Num) (np_sub a b)"
  unfolding np_sub_fp_def np_sub_def
  by (induction a arbitrary: b) (auto simp: zip_Cons1 map2_fsub_Num split: list.splits)

lemma np_add_fp_Num:
  "np_add_fp (map (map Num) a) (map (map Num) b) = map (map Num) (np_add a b)"
  unfolding np_add_fp_def np_add_def
  by (induction a arbitrary: b) (auto simp: zip_Cons1 map2_fadd_Num split: list.splits)

lemma np_zeros_like_fp_Num: "np_zeros_like_fp (map (map Num) a) = map (map Num) (np_zeros_like a)"
  by (simp add: np_zeros_like_fp_def np_zeros_like_def comp_def)

lemma np_zeros_fp_Num: "np_zeros_fp rows cols = map (map Num) (np_zeros rows cols)"
  by (simp add: np_zeros_fp_def np_zeros_def)

lemma fmaximum_Num: "fmaximum (Num a) (Num b) = Num (max a b)"
  by (simp add: fmaximum_def max_def)

lemma foldl_fmaximum_Num: "foldl fmaximum (Num x) (map Num xs) = Num (fold max xs x)"
  by (induction xs arbitrary: x) (simp_all add: fmaximum_Num max.commute)

lemma np_max_abs_fp_Num:
  "np_max_abs_fp (map (map Num) a) =
     (case np_max_abs a of Inl e \<Rightarrow> Inl e | Inr m \<Rightarrow> Inr (Num m))"
proof -
  have c: "map fabs (concat (map (map Num) a)) = map Num (map abs (concat a))"
    by (simp add: map_concat comp_def)
  show ?thesis
  proof (cases "concat a")
    case Nil
    have "np_max_abs_fp (map (map Num) a) = Inl ValueError"
      unfolding np_max_abs_fp_def c Nil by simp
    moreover have "np_max_abs a = Inl ValueError"
      unfolding np_max_abs_def Nil by simp
    ultimately show ?thesis by simp
  next
    case (Cons x xs)
    have "np_max_abs_fp (map (map Num) a) = Inr (Num (fold max (map abs xs) \<bar>x\<bar>))"
      unfolding np_max_abs_fp_def c Cons
      by (simp only: list.map list.case foldl_fmaximum_Num)
    moreover have "np_max_abs a = Inr (Max (set (\<bar>x\<bar> # map abs xs)))"
      unfolding np_max_abs_def Cons by simp
    moreover have "Max (set (\<bar>x\<bar> # map abs xs)) = fold max (map abs xs) \<bar>x\<bar>"
      by (rule Max.set_eq_fold)
    ultimately show ?thesis by simp
  qed
qed

lemma np_div_scalar_fp_Num:
  "np_div_scalar_fp (map (map Num) a) (Num d) =
     (case np_div_scalar a d of Inl e \<Rightarrow> Inl e | Inr g \<Rightarrow> Inr (map (map Num) g))"
  by (simp add: np_div_scalar_fp_def np_div_scalar_def comp_def)

lemma assign_leading_columns_fp_Num:
  "assign_leading_columns_fp (map (map Num) a) n (map Num v) =
     (case assign_leading_columns a n v of Inl e \<Rightarrow> Inl e | Inr r \<Rightarrow> Inr (map (map Num) r))"
  by (simp add: assign_leading_columns_fp_def assign_leading_columns_def ncols_fp_Num
      take_map drop_map comp_def)

lemma forward_rows_fp_Num:
  assumes "\<forall>a angle. ndrotate_fp (map (map Num) a) (Num angle) = map (map Num) (ndrotate a angle)"
  shows "forward_rows_fp ndrotate_fp (map (map Num) img) n (map (\<lambda>(i, angle). (i, Num angle)) its)
           (map (map Num) projections) =
         (case forward_rows ndrotate img n its projections of
            Inl e \<Rightarrow> Inl e
          | Inr r \<Rightarrow> Inr (map (map Num) r))"
proof (induction its arbitrary: projections)
  case Nil
  show ?case by simp
next
  case (Cons a its)
  obtain i angle where a: "a = (i, angle)" by (cases a)
  let ?p = "resize_projection n (np_sum_axis0 (ndrotate img angle))"
  have "(map (map Num) projections)[i := map Num ?p] = map (map Num) (projections[i := ?p])"
    by (simp add: map_update)
  with Cons.IH [of "projections[i := ?p]"] show ?case
    unfolding a
    by (simp add: Let_def assms np_sum_axis0_fp_Num resize_projection_fp_Num)
qed

lemma enumerate_Num:
  "enumerate n (map Num theta) = map (\<lambda>(i, angle). (i, Num angle)) (enumerate n theta)"
  by (induction theta arbitrary: n) simp_all

lemma backproject_rows_fp_Num:
  assumes "\<forall>a angle. ndrotate_fp (map (map Num) a) (Num angle) = map (map Num) (ndrotate a angle)"
  shows "backproject_rows_fp ndrotate_fp (map (map Num) img) n (map (map Num) err)
           (map (\<lambda>(i, angle). (i, Num angle)) its) (map (map Num) acc) =
         (case backproject_rows ndrotate img n err its acc of
            Inl e \<Rightarrow> Inl e
          | Inr r \<Rightarrow> Inr (map (map Num) r))"
proof (induction its arbitrary: acc)
  case Nil
  show ?case by simp
next
  case (Cons a its)
  obtain i angle where a: "a = (i, angle)" by (cases a)
  show ?case
  proof (cases "i < length err")
    case False
    then show ?thesis unfolding a by simp
  next
    case i: True
    show ?thesis
    proof (cases "assign_leading_columns (np_zeros_like img) n (err ! i)")
      case (Inl e)
      with i show ?thesis
        unfolding a by (simp add: np_zeros_like_fp_Num assign_leading_columns_fp_Num)
    next
      case (Inr expanded_error)
      with i Cons.IH [of "np_add acc (ndrotate expanded_error (- angle))"] show ?thesis
        unfolding a
        by (simp add: np_zeros_like_fp_Num assign_leading_columns_fp_Num assms
            np_add_fp_Num Let_def)
    qed
  qed
qed

lemma normalize_fp_Num:
  "normalize_fp (map (map Num) b) =
     (case normalize b of Inl e \<Rightarrow> Inl e | Inr r \<Rightarrow> Inr (map (map Num) r))"
  by (simp add: normalize_fp_def normalize_def np_max_abs_fp_Num np_div_scalar_fp_Num
      split: sum.splits)

lemma update_fp_Num:
  "update_fp (map (map Num) img) (Num learning_rate) num_projections (map (map Num) b) =
     (case update img learning_rate num_projections b of
        Inl e \<Rightarrow> Inl e
      | Inr r \<Rightarrow> Inr (map (map Num) r))"
proof -
  have scale: "np_scale_fp (Num learning_rate) (map (map Num) g)
                 = map (map Num) (np_scale learning_rate g)" for g
    by (simp add: np_scale_fp_def np_scale_def comp_def)
  have clip: "np_maximum0_fp (map (map Num) a) = map (map Num) (np_maximum0 a)" for a
    by (simp add: np_maximum0_fp_def np_maximum0_def comp_def fmaximum_Num)
  show ?thesis
    by (simp add: update_fp_def update_def np_div_scalar_fp_Num scale clip np_add_fp_Num
        split: sum.splits)
qed

text \<open>\<open>previous_error\<close> of the first embedding as a sample.\<close>

lemma check_Num:
  "fless (fabs (fsub (case prev of Finite p \<Rightarrow> Num p | Infinity \<Rightarrow> PInf) (Num max_error)))
     (Num tolerance) = below (error_change prev max_error) tolerance"
  by (cases prev) (simp_all add: fsub_def)

lemma forward_projection_fp_Num:
  assumes "\<forall>a angle. ndrotate_fp (map (map Num) a) (Num angle) = map (map Num) (ndrotate a angle)"
  shows "forward_projection_fp ndrotate_fp (map (map Num) img) rows cols (map Num theta) =
         (case forward_projection ndrotate img rows cols theta of
            Inl e \<Rightarrow> Inl e
          | Inr r \<Rightarrow> Inr (map (map Num) r))"
  unfolding forward_projection_fp_def forward_projection_def np_zeros_fp_Num enumerate_Num
  by (rule forward_rows_fp_Num [OF assms])

lemma backprojection_fp_Num:
  assumes "\<forall>a angle. ndrotate_fp (map (map Num) a) (Num angle) = map (map Num) (ndrotate a angle)"
  shows "backprojection_fp ndrotate_fp (map (map Num) img) n (map (map Num) err) (map Num theta) =
         (case backprojection ndrotate img n err theta of
            Inl e \<Rightarrow> Inl e
          | Inr r \<Rightarrow> Inr (map (map Num) r))"
  unfolding backprojection_fp_def backprojection_def np_zeros_like_fp_Num enumerate_Num
  by (rule backproject_rows_fp_Num [OF assms])

lemma EST_iteration_fp_Num:
  assumes "\<forall>a angle. ndrotate_fp (map (map Num) a) (Num angle) = map (map Num) (ndrotate a angle)"
  shows "EST_iteration_fp ndrotate_fp (map (map Num) sinogram) (map Num theta) (Num tolerance)
           (Num learning_rate)
           \<lparr>estimated_image_fp = map (map Num) (estimated_image st),
            previous_error_fp = (case previous_error st of Finite p \<Rightarrow> Num p | Infinity \<Rightarrow> PInf)\<rparr>
         = (case EST_iteration ndrotate sinogram theta tolerance learning_rate st of
              Inl e \<Rightarrow> Inl e
            | Inr Break \<Rightarrow> Inr Break_fp
            | Inr (Next st') \<Rightarrow>
                Inr (Next_fp \<lparr>estimated_image_fp = map (map Num) (estimated_image st'),
                              previous_error_fp =
                                (case previous_error st' of
                                   Finite p \<Rightarrow> Num p | Infinity \<Rightarrow> PInf)\<rparr>))"
proof -
  let ?P = "length sinogram" and ?D = "ncols sinogram"
  let ?img = "estimated_image st"
  note fw = forward_projection_fp_Num [OF assms, of ?img ?P ?D theta]
  show ?thesis
  proof (cases "forward_projection ndrotate ?img ?P ?D theta")
    case (Inl e)
    with fw show ?thesis
      by (simp add: EST_iteration_fp_def EST_iteration_def ncols_fp_Num)
  next
    case fp: (Inr projections)
    let ?err = "np_sub sinogram projections"
    note mx = np_max_abs_fp_Num [of ?err]
    show ?thesis
    proof (cases "np_max_abs ?err")
      case (Inl e)
      with fw fp mx show ?thesis
        by (simp add: EST_iteration_fp_def EST_iteration_def ncols_fp_Num np_sub_fp_Num)
    next
      case me: (Inr max_error)
      note ck = check_Num [of "previous_error st" max_error tolerance]
      show ?thesis
      proof (cases "below (error_change (previous_error st) max_error) tolerance")
        case True
        with fw fp mx me ck show ?thesis
          by (simp add: EST_iteration_fp_def EST_iteration_def ncols_fp_Num np_sub_fp_Num)
      next
        case nb: False
        note bw = backprojection_fp_Num [OF assms, of ?img ?D ?err theta]
        show ?thesis
        proof (cases "backprojection ndrotate ?img ?D ?err theta")
          case (Inl e)
          with fw fp mx me ck nb bw show ?thesis
            by (simp add: EST_iteration_fp_def EST_iteration_def ncols_fp_Num np_sub_fp_Num)
        next
          case bp: (Inr b)
          note nm = normalize_fp_Num [of b]
          show ?thesis
          proof (cases "normalize b")
            case (Inl e)
            with fw fp mx me ck nb bw bp nm show ?thesis
              by (simp add: EST_iteration_fp_def EST_iteration_def ncols_fp_Num np_sub_fp_Num)
          next
            case nr: (Inr b')
            note up = update_fp_Num [of ?img learning_rate ?P b']
            show ?thesis
            proof (cases "update ?img learning_rate ?P b'")
              case (Inl e)
              with fw fp mx me ck nb bw bp nm nr up show ?thesis
                by (simp add: EST_iteration_fp_def EST_iteration_def ncols_fp_Num np_sub_fp_Num)
            next
              case (Inr new_image)
              with fw fp mx me ck nb bw bp nm nr up show ?thesis
                by (simp add: EST_iteration_fp_def EST_iteration_def ncols_fp_Num np_sub_fp_Num)
            qed
          qed
        qed
      qed
    qed
  qed
qed

lemma EST_loop_fp_Num:
  assumes "\<forall>a angle. ndrotate_fp (map (map Num) a) (Num angle) = map (map Num) (ndrotate a angle)"
  shows "EST_loop_fp ndrotate_fp (map (map Num) sinogram) (map Num theta) (Num tolerance)
           (Num learning_rate) its
           \<lparr>estimated_image_fp = map (map Num) (estimated_image st),
            previous_error_fp = (case previous_error st of Finite p \<Rightarrow> Num p | Infinity \<Rightarrow> PInf)\<rparr>
         = (case EST_loop ndrotate sinogram theta tolerance learning_rate its st of
              Inl e \<Rightarrow> Inl e
            | Inr (img, ex) \<Rightarrow> Inr (map (map Num) img, ex))"
proof (induction its arbitrary: st)
  case Nil
  show ?case by simp
next
  case (Cons iteration rest)
  note it = EST_iteration_fp_Num [OF assms, of sinogram theta tolerance learning_rate st]
  show ?case
  proof (cases "EST_iteration ndrotate sinogram theta tolerance learning_rate st")
    case (Inl e)
    with it show ?thesis by simp
  next
    case (Inr s)
    show ?thesis
    proof (cases s)
      case Break
      with Inr it show ?thesis by simp
    next
      case (Next st')
      with Inr it Cons.IH [of st'] show ?thesis by simp
    qed
  qed
qed

lemma EST_reco_fp_on_numbers:
  assumes "\<forall>a angle. ndrotate_fp (map (map Num) a) (Num angle) = map (map Num) (ndrotate a angle)"
    and "\<forall>s th. iradon_fp (map (map Num) s) (map Num th) =
                 (case iradon s th of Inl e \<Rightarrow> Inl e | Inr img \<Rightarrow> Inr (map (map Num) img))"
  shows "EST_reco_fp ndrotate_fp iradon_fp (map (map Num) sinogram) (map Num theta)
           num_iterations (Num tolerance) (Num learning_rate) =
         (case EST_reco ndrotate iradon sinogram theta num_iterations tolerance learning_rate of
            Inl e \<Rightarrow> Inl e
          | Inr img \<Rightarrow> Inr (map (map Num) img))"
proof (cases "iradon (np_rot90_neg sinogram) theta")
  case (Inl e)
  with assms(2) show ?thesis
    by (simp add: EST_reco_fp_def EST_run_fp_def EST_reco_def EST_run_def np_rot90_neg_fp_Num)
next
  case (Inr initial_guess)
  note lp = EST_loop_fp_Num [OF assms(1), of sinogram theta tolerance learning_rate
      "[0..<nat num_iterations]"
      "\<lparr>estimated_image = initial_guess, previous_error = Infinity\<rparr>"]
  from Inr assms(2) lp show ?thesis
    by (simp add: EST_reco_fp_def EST_run_fp_def EST_reco_def EST_run_def np_rot90_neg_fp_Num
        split: sum.splits)
qed

end
